theory Spec2Isabelle
  imports Main "HOL-Library.AList"
begin

section \<open>Python values\<close>

text \<open>
  The completion API module (\<^verbatim>\<open>spyder/plugins/completion/api.py\<close>) is a collection of
  constants: integers, strings, lists and nested dictionaries.  They are embedded in one
  datatype of Python values; a dictionary is an association list in insertion order, as
  Python keeps it.  \<open>PDescr\<close> stands for the attribute descriptors the interpreter puts
  into a class namespace, \<open>PTuple\<close> for a tuple.
\<close>

datatype pyval =
    PNone
  | PBool bool
  | PInt int
  | PStr string
  | PList "pyval list"
  | PTuple "pyval list"
  | PDict "(string \<times> pyval) list"
  | PDescr string

text \<open>\<^verbatim>\<open>isinstance(value, int)\<close>: \<^verbatim>\<open>bool\<close> is a subclass of \<^verbatim>\<open>int\<close>.\<close>

fun isinstance_int :: "pyval \<Rightarrow> bool" where
  "isinstance_int (PInt _) = True"
| "isinstance_int (PBool _) = True"
| "isinstance_int _ = False"

text \<open>\<^verbatim>\<open>d[key]\<close> on a value: defined on dictionaries that hold the key.\<close>

fun subscript :: "pyval \<Rightarrow> string \<Rightarrow> pyval option" where
  "subscript (PDict kvs) key = map_of kvs key"
| "subscript _ key = None"

text \<open>\<^verbatim>\<open>d[k1][k2]...\<close>, a chain of subscripts.\<close>

fun subscripts :: "pyval \<Rightarrow> string list \<Rightarrow> pyval option" where
  "subscripts d [] = Some d"
| "subscripts d (key # keys) =
     (case subscript d key of None \<Rightarrow> None | Some v \<Rightarrow> subscripts v keys)"

text \<open>\<^verbatim>\<open>list(d.keys())\<close>.\<close>

fun dict_keys :: "pyval \<Rightarrow> string list option" where
  "dict_keys (PDict kvs) = Some (map fst kvs)"
| "dict_keys _ = None"

section \<open>Workspace symbol constants\<close>

named_theorems SymbolKind_defs "the attributes of class SymbolKind"

definition SymbolKind_FILE :: int where [SymbolKind_defs]: "SymbolKind_FILE = 1"
definition SymbolKind_MODULE :: int where [SymbolKind_defs]: "SymbolKind_MODULE = 2"
definition SymbolKind_NAMESPACE :: int where [SymbolKind_defs]: "SymbolKind_NAMESPACE = 3"
definition SymbolKind_PACKAGE :: int where [SymbolKind_defs]: "SymbolKind_PACKAGE = 4"
definition SymbolKind_CLASS :: int where [SymbolKind_defs]: "SymbolKind_CLASS = 5"
definition SymbolKind_METHOD :: int where [SymbolKind_defs]: "SymbolKind_METHOD = 6"
definition SymbolKind_PROPERTY :: int where [SymbolKind_defs]: "SymbolKind_PROPERTY = 7"
definition SymbolKind_FIELD :: int where [SymbolKind_defs]: "SymbolKind_FIELD = 8"
definition SymbolKind_CONSTRUCTOR :: int where [SymbolKind_defs]: "SymbolKind_CONSTRUCTOR = 9"
definition SymbolKind_ENUM :: int where [SymbolKind_defs]: "SymbolKind_ENUM = 10"
definition SymbolKind_INTERFACE :: int where [SymbolKind_defs]: "SymbolKind_INTERFACE = 11"
definition SymbolKind_FUNCTION :: int where [SymbolKind_defs]: "SymbolKind_FUNCTION = 12"
definition SymbolKind_VARIABLE :: int where [SymbolKind_defs]: "SymbolKind_VARIABLE = 13"
definition SymbolKind_CONSTANT :: int where [SymbolKind_defs]: "SymbolKind_CONSTANT = 14"
definition SymbolKind_STRING :: int where [SymbolKind_defs]: "SymbolKind_STRING = 15"
definition SymbolKind_NUMBER :: int where [SymbolKind_defs]: "SymbolKind_NUMBER = 16"
definition SymbolKind_BOOLEAN :: int where [SymbolKind_defs]: "SymbolKind_BOOLEAN = 17"
definition SymbolKind_ARRAY :: int where [SymbolKind_defs]: "SymbolKind_ARRAY = 18"
definition SymbolKind_OBJECT :: int where [SymbolKind_defs]: "SymbolKind_OBJECT = 19"
definition SymbolKind_KEY :: int where [SymbolKind_defs]: "SymbolKind_KEY = 20"
definition SymbolKind_NULL :: int where [SymbolKind_defs]: "SymbolKind_NULL = 21"
definition SymbolKind_ENUM_MEMBER :: int where [SymbolKind_defs]: "SymbolKind_ENUM_MEMBER = 22"
definition SymbolKind_STRUCT :: int where [SymbolKind_defs]: "SymbolKind_STRUCT = 23"
definition SymbolKind_EVENT :: int where [SymbolKind_defs]: "SymbolKind_EVENT = 24"
definition SymbolKind_OPERATOR :: int where [SymbolKind_defs]: "SymbolKind_OPERATOR = 25"
definition SymbolKind_TYPE_PARAMETER :: int where
  [SymbolKind_defs]: "SymbolKind_TYPE_PARAMETER = 26"

text \<open>Additional symbol constants (non-standard).\<close>

definition SymbolKind_BLOCK_COMMENT :: int where
  [SymbolKind_defs]: "SymbolKind_BLOCK_COMMENT = 224"
definition SymbolKind_CELL :: int where [SymbolKind_defs]: "SymbolKind_CELL = 225"

text \<open>
  The body of \<^verbatim>\<open>class SymbolKind\<close>: the attributes it declares, in the order of the
  source.
\<close>

definition SymbolKind_body :: "(string \<times> pyval) list" where
  "SymbolKind_body =
    [(''FILE'', PInt SymbolKind_FILE),
     (''MODULE'', PInt SymbolKind_MODULE),
     (''NAMESPACE'', PInt SymbolKind_NAMESPACE),
     (''PACKAGE'', PInt SymbolKind_PACKAGE),
     (''CLASS'', PInt SymbolKind_CLASS),
     (''METHOD'', PInt SymbolKind_METHOD),
     (''PROPERTY'', PInt SymbolKind_PROPERTY),
     (''FIELD'', PInt SymbolKind_FIELD),
     (''CONSTRUCTOR'', PInt SymbolKind_CONSTRUCTOR),
     (''ENUM'', PInt SymbolKind_ENUM),
     (''INTERFACE'', PInt SymbolKind_INTERFACE),
     (''FUNCTION'', PInt SymbolKind_FUNCTION),
     (''VARIABLE'', PInt SymbolKind_VARIABLE),
     (''CONSTANT'', PInt SymbolKind_CONSTANT),
     (''STRING'', PInt SymbolKind_STRING),
     (''NUMBER'', PInt SymbolKind_NUMBER),
     (''BOOLEAN'', PInt SymbolKind_BOOLEAN),
     (''ARRAY'', PInt SymbolKind_ARRAY),
     (''OBJECT'', PInt SymbolKind_OBJECT),
     (''KEY'', PInt SymbolKind_KEY),
     (''NULL'', PInt SymbolKind_NULL),
     (''ENUM_MEMBER'', PInt SymbolKind_ENUM_MEMBER),
     (''STRUCT'', PInt SymbolKind_STRUCT),
     (''EVENT'', PInt SymbolKind_EVENT),
     (''OPERATOR'', PInt SymbolKind_OPERATOR),
     (''TYPE_PARAMETER'', PInt SymbolKind_TYPE_PARAMETER),
     (''BLOCK_COMMENT'', PInt SymbolKind_BLOCK_COMMENT),
     (''CELL'', PInt SymbolKind_CELL)]"

text \<open>
  \<^verbatim>\<open>SymbolKind.__dict__\<close>.  Besides the declared attributes the interpreter stores
  entries of its own in a class namespace, some in front of the body and some behind it.
  Which ones depends on the interpreter that imports the module, so they are the
  parameters \<open>before\<close> and \<open>after\<close> of the namespace and of every table computed from
  it.
\<close>

definition class_dict ::
  "(string \<times> pyval) list \<Rightarrow> (string \<times> pyval) list \<Rightarrow> (string \<times> pyval) list \<Rightarrow>
   (string \<times> pyval) list" where
  "class_dict before body after = before @ body @ after"

definition SymbolKind_dict ::
  "(string \<times> pyval) list \<Rightarrow> (string \<times> pyval) list \<Rightarrow> (string \<times> pyval) list" where
  "SymbolKind_dict before after = class_dict before SymbolKind_body after"

text \<open>
  What CPython 3.8 to 3.12 store for a class with a docstring: the module name and the
  docstring in front, the two attribute descriptors behind.
\<close>

definition cpython_before :: "string \<Rightarrow> string \<Rightarrow> (string \<times> pyval) list" where
  "cpython_before module doc = [(''__module__'', PStr module), (''__doc__'', PStr doc)]"

definition cpython_after :: "(string \<times> pyval) list" where
  "cpython_after = [(''__dict__'', PDescr ''__dict__''), (''__weakref__'', PDescr ''__weakref__'')]"

text \<open>
  What CPython 3.13 stores: in addition the line of the \<^verbatim>\<open>class\<close> statement, an
  integer, under \<^verbatim>\<open>__firstlineno__\<close>, and the tuple \<^verbatim>\<open>__static_attributes__\<close>, empty for
  a class without methods.
\<close>

definition cpython313_before :: "string \<Rightarrow> int \<Rightarrow> string \<Rightarrow> (string \<times> pyval) list" where
  "cpython313_before module firstlineno doc =
     [(''__module__'', PStr module), (''__firstlineno__'', PInt firstlineno),
      (''__doc__'', PStr doc)]"

definition cpython313_after :: "(string \<times> pyval) list" where
  "cpython313_after =
     [(''__static_attributes__'', PTuple []), (''__dict__'', PDescr ''__dict__''),
      (''__weakref__'', PDescr ''__weakref__'')]"

text \<open>
  \<^verbatim>\<open>class SymbolKind\<close> as the source has it: module
  \<^verbatim>\<open>spyder.plugins.completion.api\<close>, line 33, with its docstring.
\<close>

definition SymbolKind_before :: "(string \<times> pyval) list" where
  "SymbolKind_before =
     cpython_before ''spyder.plugins.completion.api'' ''LSP workspace symbol constants.''"

definition SymbolKind_before_313 :: "(string \<times> pyval) list" where
  "SymbolKind_before_313 =
     cpython313_before ''spyder.plugins.completion.api'' 33 ''LSP workspace symbol constants.''"

text \<open>Mapping between symbol enum and icons.\<close>

definition SYMBOL_KIND_ICON :: "(int \<times> string) list" where
  "SYMBOL_KIND_ICON =
    [(SymbolKind_FILE, ''file''),
     (SymbolKind_MODULE, ''module''),
     (SymbolKind_NAMESPACE, ''namespace''),
     (SymbolKind_PACKAGE, ''package''),
     (SymbolKind_CLASS, ''class''),
     (SymbolKind_METHOD, ''method''),
     (SymbolKind_PROPERTY, ''property''),
     (SymbolKind_FIELD, ''field''),
     (SymbolKind_CONSTRUCTOR, ''constructor''),
     (SymbolKind_ENUM, ''enum''),
     (SymbolKind_INTERFACE, ''interface''),
     (SymbolKind_FUNCTION, ''function''),
     (SymbolKind_VARIABLE, ''variable''),
     (SymbolKind_CONSTANT, ''constant''),
     (SymbolKind_STRING, ''string''),
     (SymbolKind_NUMBER, ''number''),
     (SymbolKind_BOOLEAN, ''boolean''),
     (SymbolKind_ARRAY, ''array''),
     (SymbolKind_OBJECT, ''object''),
     (SymbolKind_KEY, ''key''),
     (SymbolKind_NULL, ''null''),
     (SymbolKind_ENUM_MEMBER, ''enum_member''),
     (SymbolKind_STRUCT, ''struct''),
     (SymbolKind_EVENT, ''event''),
     (SymbolKind_OPERATOR, ''operator''),
     (SymbolKind_TYPE_PARAMETER, ''type_parameter''),
     (SymbolKind_BLOCK_COMMENT, ''blockcomment''),
     (SymbolKind_CELL, ''cell'')]"

text \<open>
  The integer-valued constants of \<^verbatim>\<open>SymbolKind\<close>, read off its namespace:
  \<^verbatim>\<open>[value for value in SymbolKind.__dict__.values() if isinstance(value, int)]\<close>.
\<close>

definition int_values :: "(string \<times> pyval) list \<Rightarrow> pyval list" where
  "int_values namespace = filter isinstance_int (map snd namespace)"

section \<open>Workspace configuration constants\<close>

definition ResourceOperationKind_CREATE :: string where
  "ResourceOperationKind_CREATE = ''create''"
definition ResourceOperationKind_RENAME :: string where
  "ResourceOperationKind_RENAME = ''rename''"
definition ResourceOperationKind_DELETE :: string where
  "ResourceOperationKind_DELETE = ''delete''"

definition FailureHandlingKind_ABORT :: string where
  "FailureHandlingKind_ABORT = ''abort''"
definition FailureHandlingKind_TRANSACTIONAL :: string where
  "FailureHandlingKind_TRANSACTIONAL = ''transactional''"
definition FailureHandlingKind_UNDO :: string where
  "FailureHandlingKind_UNDO = ''undo''"
definition FailureHandlingKind_TEXT_ONLY_TRANSACTIONAL :: string where
  "FailureHandlingKind_TEXT_ONLY_TRANSACTIONAL = ''textOnlyTransactional''"

section \<open>Client configuration settings\<close>

text \<open>
  \<^verbatim>\<open>WORKSPACE_CAPABILITIES\<close> reads \<^verbatim>\<open>SymbolKind.__dict__\<close>, so it depends on the
  interpreter's entries of that namespace.
\<close>

definition WORKSPACE_CAPABILITIES ::
  "(string \<times> pyval) list \<Rightarrow> (string \<times> pyval) list \<Rightarrow> pyval" where
  "WORKSPACE_CAPABILITIES before after = PDict
    [(''applyEdit'', PBool True),
     (''workspaceEdit'', PDict
        [(''documentChanges'', PBool True),
         (''resourceOperations'', PList
            [PStr ResourceOperationKind_CREATE,
             PStr ResourceOperationKind_RENAME,
             PStr ResourceOperationKind_DELETE]),
         (''failureHandling'', PStr FailureHandlingKind_TRANSACTIONAL)]),
     (''didChangeConfiguration'', PDict [(''dynamicRegistration'', PBool True)]),
     (''didChangeWatchedFiles'', PDict [(''dynamicRegistration'', PBool True)]),
     (''symbol'', PDict [(''dynamicRegistration'', PBool True)]),
     (''executeCommand'', PDict
        [(''dynamicRegistration'', PBool True),
         (''symbolKind'', PDict
            [(''valueSet'', PList (int_values (SymbolKind_dict before after)))])]),
     (''workspaceFolders'', PBool True),
     (''configuration'', PBool True)]"

definition TEXT_EDITOR_CAPABILITES :: pyval where
  "TEXT_EDITOR_CAPABILITES = PDict
    [(''synchronization'', PDict
        [(''dynamicRegistration'', PBool True),
         (''willSave'', PBool True),
         (''willSaveWaitUntil'', PBool True),
         (''didSave'', PBool True)]),
     (''completion'', PDict
        [(''dynamicRegistration'', PBool True),
         (''completionItem'', PDict [(''snippetSupport'', PBool True)])]),
     (''hover'', PDict [(''dynamicRegistration'', PBool True)]),
     (''signatureHelp'', PDict [(''dynamicRegistration'', PBool True)]),
     (''references'', PDict [(''dynamicRegistration'', PBool True)]),
     (''documentHighlight'', PDict [(''dynamicRegistration'', PBool True)]),
     (''documentSymbol'', PDict [(''dynamicRegistration'', PBool True)]),
     (''formatting'', PDict [(''dynamicRegistration'', PBool True)]),
     (''rangeFormatting'', PDict [(''dynamicRegistration'', PBool True)]),
     (''onTypeFormatting'', PDict [(''dynamicRegistration'', PBool True)]),
     (''definition'', PDict [(''dynamicRegistration'', PBool True)]),
     (''codeAction'', PDict [(''dynamicRegistration'', PBool True)]),
     (''codeLens'', PDict [(''dynamicRegistration'', PBool True)]),
     (''documentLink'', PDict [(''dynamicRegistration'', PBool True)]),
     (''rename'', PDict [(''dynamicRegistration'', PBool True)])]"

text \<open>Spyder editor and workspace capabilities.\<close>

definition CLIENT_CAPABILITES ::
  "(string \<times> pyval) list \<Rightarrow> (string \<times> pyval) list \<Rightarrow> pyval" where
  "CLIENT_CAPABILITES before after = PDict
    [(''workspace'', WORKSPACE_CAPABILITIES before after),
     (''textDocument'', TEXT_EDITOR_CAPABILITES)]"

section \<open>Request types and completion kinds\<close>

text \<open>
  \<^verbatim>\<open>class CompletionRequestTypes\<close> and \<^verbatim>\<open>class CompletionItemKind\<close>: attribute name
  and value, in the order of the source.  An attribute is read with \<open>map_of\<close>.
\<close>

definition CompletionRequestTypes :: "(string \<times> string) list" where
  "CompletionRequestTypes =
    [(''INITIALIZE'', ''initialize''),
     (''INITIALIZED'', ''initialized''),
     (''SHUTDOWN'', ''shutdown''),
     (''EXIT'', ''exit''),
     (''CANCEL_REQUEST'', ''$/cancelRequest''),
     (''WINDOW_SHOW_MESSAGE'', ''window/showMessage''),
     (''WINDOW_SHOW_MESSAGE_REQUEST'', ''window/showMessageRequest''),
     (''WINDOW_LOG_MESSAGE'', ''window/logMessage''),
     (''TELEMETRY_EVENT'', ''telemetry/event''),
     (''CLIENT_REGISTER_CAPABILITY'', ''client/registerCapability''),
     (''CLIENT_UNREGISTER_CAPABILITY'', ''client/unregisterCapability''),
     (''WORKSPACE_FOLDERS'', ''workspace/workspaceFolders''),
     (''WORKSPACE_FOLDERS_CHANGE'', ''workspace/didChangeWorkspaceFolders''),
     (''WORKSPACE_CONFIGURATION'', ''workspace/configuration''),
     (''WORKSPACE_CONFIGURATION_CHANGE'', ''workspace/didChangeConfiguration''),
     (''WORKSPACE_WATCHED_FILES_UPDATE'', ''workspace/didChangeWatchedFiles''),
     (''WORKSPACE_SYMBOL'', ''workspace/symbol''),
     (''WORKSPACE_EXECUTE_COMMAND'', ''workspace/executeCommand''),
     (''WORKSPACE_APPLY_EDIT'', ''workspace/applyEdit''),
     (''DOCUMENT_PUBLISH_DIAGNOSTICS'', ''textDocument/publishDiagnostics''),
     (''DOCUMENT_DID_OPEN'', ''textDocument/didOpen''),
     (''DOCUMENT_DID_CHANGE'', ''textDocument/didChange''),
     (''DOCUMENT_WILL_SAVE'', ''textDocument/willSave''),
     (''DOCUMENT_WILL_SAVE_UNTIL'', ''textDocument/willSaveWaitUntil''),
     (''DOCUMENT_DID_SAVE'', ''textDocument/didSave''),
     (''DOCUMENT_DID_CLOSE'', ''textDocument/didClose''),
     (''DOCUMENT_COMPLETION'', ''textDocument/completion''),
     (''COMPLETION_RESOLVE'', ''completionItem/resolve''),
     (''DOCUMENT_HOVER'', ''textDocument/hover''),
     (''DOCUMENT_SIGNATURE'', ''textDocument/signatureHelp''),
     (''DOCUMENT_REFERENCES'', '' textDocument/references''),
     (''DOCUMENT_HIGHLIGHT'', ''textDocument/documentHighlight''),
     (''DOCUMENT_SYMBOL'', ''textDocument/documentSymbol''),
     (''DOCUMENT_FORMATTING'', ''textDocument/formatting''),
     (''DOCUMENT_FOLDING_RANGE'', ''textDocument/foldingRange''),
     (''DOCUMENT_RANGE_FORMATTING'', ''textDocument/rangeFormatting''),
     (''DOCUMENT_ON_TYPE_FORMATTING'', ''textDocument/onTypeFormatting''),
     (''DOCUMENT_DEFINITION'', ''textDocument/definition''),
     (''DOCUMENT_CODE_ACTION'', ''textDocument/codeAction''),
     (''DOCUMENT_CODE_LENS'', ''textDocument/codeLens''),
     (''CODE_LENS_RESOLVE'', ''codeLens/resolve''),
     (''DOCUMENT_LINKS'', ''textDocument/documentLink''),
     (''DOCUMENT_LINK_RESOLVE'', ''documentLink/resolve''),
     (''DOCUMENT_RENAME'', ''textDocument/rename''),
     (''DOCUMENT_CURSOR_EVENT'', ''textDocument/cursorEvent'')]"

definition CompletionItemKind :: "(string \<times> int) list" where
  "CompletionItemKind =
    [(''TEXT'', 1), (''METHOD'', 2), (''FUNCTION'', 3), (''CONSTRUCTOR'', 4),
     (''FIELD'', 5), (''VARIABLE'', 6), (''CLASS'', 7), (''INTERFACE'', 8),
     (''MODULE'', 9), (''PROPERTY'', 10), (''UNIT'', 11), (''VALUE'', 12),
     (''ENUM'', 13), (''KEYWORD'', 14), (''SNIPPET'', 15), (''COLOR'', 16),
     (''FILE'', 17), (''REFERENCE'', 18)]"

section \<open>Completion provider interface\<close>

text \<open>
  \<^verbatim>\<open>class SpyderCompletionProvider(QObject)\<close>.  A provider carries the class attribute
  \<^verbatim>\<open>COMPLETION_CLIENT_NAME\<close> (\<^verbatim>\<open>None\<close> unless a subclass sets it) and the
  configuration handed to the constructor.  Emitting a Qt signal is an effect: a method
  returns the provider together with the signals it emitted, in order.
\<close>

record 'cfg provider =
  COMPLETION_CLIENT_NAME :: "string option"
  config :: 'cfg

datatype signal = sig_provider_ready "string option"

definition update_configuration :: "'cfg provider \<Rightarrow> 'cfg \<Rightarrow> 'cfg provider" where
  "update_configuration self config' = self"

definition start_provider :: "'cfg provider \<Rightarrow> string \<Rightarrow> bool" where
  "start_provider self language = False"

definition start :: "'cfg provider \<Rightarrow> 'cfg provider \<times> signal list" where
  "start self = (self, [sig_provider_ready (COMPLETION_CLIENT_NAME self)])"

definition shutdown :: "'cfg provider \<Rightarrow> 'cfg provider" where
  "shutdown self = self"

definition can_close :: "'cfg provider \<Rightarrow> bool" where
  "can_close self = True"

section \<open>Configuration accessor\<close>

text \<open>
  \<^verbatim>\<open>spyder/api/config/mixins.py\<close>.  An operation of this module fails with the
  \<^verbatim>\<open>AttributeError\<close> it raises itself, with the \<^verbatim>\<open>KeyError\<close> of a subscript or the
  \<^verbatim>\<open>TypeError\<close> of hashing an unhashable object, which the interpreter raises on
  one of its lines, or with whatever code outside the module raises into it: the
  configuration manager \<^verbatim>\<open>CONF\<close>, a receiver, or the methods of an object it handles.
\<close>

datatype 'x exn = AttributeError | KeyError | TypeError | External 'x

text \<open>
  The configuration manager is not part of this module.  Each accessor takes the
  operation of \<^verbatim>\<open>CONF\<close> it delegates to as its first argument: a function from the
  state \<open>'c\<close> of the configuration system to a result, or an exception, and the new state.
  Arguments with a default in the source are passed explicitly.
\<close>

definition get_conf ::
  "(string \<Rightarrow> 'o \<Rightarrow> 'd \<Rightarrow> bool \<Rightarrow> 'c \<Rightarrow> ('x + 'r) \<times> 'c) \<Rightarrow> string option \<Rightarrow>
   'o \<Rightarrow> 'd \<Rightarrow> string option \<Rightarrow> bool \<Rightarrow> 'c \<Rightarrow> ('x exn + 'r) \<times> 'c" where
  "get_conf CONF_get CONF_SECTION' option default' section secure conf =
     (let section = (if section = None then CONF_SECTION' else section) in
      case section of
        None \<Rightarrow> (Inl AttributeError, conf)
      | Some section \<Rightarrow>
          (case CONF_get section option default' secure conf of
             (Inl e, conf') \<Rightarrow> (Inl (External e), conf')
           | (Inr r, conf') \<Rightarrow> (Inr r, conf')))"

definition get_conf_options ::
  "(string \<Rightarrow> 'c \<Rightarrow> ('x + 'r) \<times> 'c) \<Rightarrow> string option \<Rightarrow>
   string option \<Rightarrow> 'c \<Rightarrow> ('x exn + 'r) \<times> 'c" where
  "get_conf_options CONF_options CONF_SECTION' section conf =
     (let section = (if section = None then CONF_SECTION' else section) in
      case section of
        None \<Rightarrow> (Inl AttributeError, conf)
      | Some section \<Rightarrow>
          (case CONF_options section conf of
             (Inl e, conf') \<Rightarrow> (Inl (External e), conf')
           | (Inr r, conf') \<Rightarrow> (Inr r, conf')))"

definition set_conf ::
  "(string \<Rightarrow> 'o \<Rightarrow> 'v \<Rightarrow> bool \<Rightarrow> bool \<Rightarrow> 'c \<Rightarrow> ('x + unit) \<times> 'c) \<Rightarrow> string option \<Rightarrow>
   'o \<Rightarrow> 'v \<Rightarrow> string option \<Rightarrow> bool \<Rightarrow> bool \<Rightarrow> 'c \<Rightarrow> ('x exn + unit) \<times> 'c" where
  "set_conf CONF_set CONF_SECTION' option value section recursive_notification secure conf =
     (let section = (if section = None then CONF_SECTION' else section) in
      case section of
        None \<Rightarrow> (Inl AttributeError, conf)
      | Some section \<Rightarrow>
          (case CONF_set section option value recursive_notification secure conf of
             (Inl e, conf') \<Rightarrow> (Inl (External e), conf')
           | (Inr r, conf') \<Rightarrow> (Inr r, conf')))"

definition remove_conf ::
  "(string \<Rightarrow> 'o \<Rightarrow> bool \<Rightarrow> 'c \<Rightarrow> ('x + unit) \<times> 'c) \<Rightarrow> string option \<Rightarrow>
   'o \<Rightarrow> string option \<Rightarrow> bool \<Rightarrow> 'c \<Rightarrow> ('x exn + unit) \<times> 'c" where
  "remove_conf CONF_remove_option CONF_SECTION' option section secure conf =
     (let section = (if section = None then CONF_SECTION' else section) in
      case section of
        None \<Rightarrow> (Inl AttributeError, conf)
      | Some section \<Rightarrow>
          (case CONF_remove_option section option secure conf of
             (Inl e, conf') \<Rightarrow> (Inl (External e), conf')
           | (Inr r, conf') \<Rightarrow> (Inr r, conf')))"

definition get_conf_default ::
  "(string \<Rightarrow> 'o \<Rightarrow> 'c \<Rightarrow> ('x + 'r) \<times> 'c) \<Rightarrow> string option \<Rightarrow>
   'o \<Rightarrow> string option \<Rightarrow> 'c \<Rightarrow> ('x exn + 'r) \<times> 'c" where
  "get_conf_default CONF_get_default CONF_SECTION' option section conf =
     (let section = (if section = None then CONF_SECTION' else section) in
      case section of
        None \<Rightarrow> (Inl AttributeError, conf)
      | Some section \<Rightarrow>
          (case CONF_get_default section option conf of
             (Inl e, conf') \<Rightarrow> (Inl (External e), conf')
           | (Inr r, conf') \<Rightarrow> (Inr r, conf')))"

section \<open>Configuration observer\<close>

text \<open>
  A receiver in the registry is the name of a method of the observer (what
  \<^verbatim>\<open>_gather_observers\<close> stores) or a callable (what \<^verbatim>\<open>add_configuration_observer\<close>
  is given).  Calling it needs the method itself: the callable, or the bound method
  that \<^verbatim>\<open>getattr(self, name)\<close> returns.
\<close>

datatype 'f receiver = Name string | Callable 'f

datatype 'f pymethod = Function 'f | BoundMethod string

datatype ('o, 'v) arg = ArgOption 'o | ArgValue 'v

type_synonym ('o, 'f) listeners = "(string option \<times> ('o \<times> 'f receiver list) list) list"

type_synonym 'o conf_listen = "(string option \<times> 'o) list"

text \<open>
  The state of an observer: the class attribute \<^verbatim>\<open>CONF_SECTION\<close>, the names that
  \<^verbatim>\<open>getattr(self, name)\<close> finds, and the two attributes \<^verbatim>\<open>__init__\<close> creates.  Both
  levels of \<^verbatim>\<open>_configuration_listeners\<close> are dictionaries in insertion order; the key
  \<open>None\<close> of the outer one is Python's \<^verbatim>\<open>None\<close>.
\<close>

record ('o, 'f) observer =
  CONF_SECTION :: "string option"
  attributes :: "string list"
  configuration_listeners :: "('o, 'f) listeners"
  multi_option_listeners :: "string set"

text \<open>\<^verbatim>\<open>d.get(key, default)\<close>.\<close>

definition get_default :: "('a \<times> 'b) list \<Rightarrow> 'a \<Rightarrow> 'b \<Rightarrow> 'b" where
  "get_default d key default' = (case map_of d key of None \<Rightarrow> default' | Some v \<Rightarrow> v)"

definition add_listener ::
  "'f receiver \<Rightarrow> 'o \<Rightarrow> string option \<Rightarrow> ('o, 'f) observer \<Rightarrow> ('o, 'f) observer" where
  "add_listener func option section self =
     (let section_listeners = get_default (configuration_listeners self) section [];
          option_listeners = get_default section_listeners option [];
          option_listeners = option_listeners @ [func];
          section_listeners = AList.update option option_listeners section_listeners
      in self\<lparr>configuration_listeners :=
           AList.update section section_listeners (configuration_listeners self)\<rparr>)"

text \<open>The loop \<^verbatim>\<open>for section, option in info\<close> of \<^verbatim>\<open>_gather_observers\<close>.\<close>

fun add_listeners ::
  "string \<Rightarrow> 'o conf_listen \<Rightarrow> ('o, 'f) observer \<Rightarrow> ('o, 'f) observer" where
  "add_listeners method_name [] self = self"
| "add_listeners method_name ((section, option) # info) self =
     add_listeners method_name info (add_listener (Name method_name) option section self)"

text \<open>
  The attributes \<^verbatim>\<open>_gather_observers\<close> does not touch, to avoid a crash at startup:
  \<^verbatim>\<open>PYSIDE6 and method_name in {"painters", "restart_kernel"}\<close>.
\<close>

definition skipped :: "bool \<Rightarrow> string \<Rightarrow> bool" where
  "skipped PYSIDE6 method_name \<longleftrightarrow>
     PYSIDE6 \<and> method_name \<in> {''painters'', ''restart_kernel''}"

text \<open>
  \<^verbatim>\<open>_gather_observers\<close> walks \<^verbatim>\<open>dir(self)\<close>.  Its second argument lists, in that order,
  each attribute name with the \<^verbatim>\<open>_conf_listen\<close> of the attribute, \<open>None\<close> where the
  attribute has none.
\<close>

fun gather_observers ::
  "bool \<Rightarrow> (string \<times> 'o conf_listen option) list \<Rightarrow> ('o, 'f) observer \<Rightarrow> ('o, 'f) observer"
  where
  "gather_observers PYSIDE6 [] self = self"
| "gather_observers PYSIDE6 ((method_name, conf_listen) # rest) self =
     (if skipped PYSIDE6 method_name
      then gather_observers PYSIDE6 rest self
      else case conf_listen of
        None \<Rightarrow> gather_observers PYSIDE6 rest self
      | Some info \<Rightarrow>
          gather_observers PYSIDE6 rest
            (add_listeners method_name info
               (if length info > 1
                then self\<lparr>multi_option_listeners := multi_option_listeners self \<union> {method_name}\<rparr>
                else self)))"

text \<open>
  The loop of \<^verbatim>\<open>_merge_none_observers\<close> over the options of \<^verbatim>\<open>default_selectors\<close>.
  When \<^verbatim>\<open>CONF_SECTION\<close> is \<^verbatim>\<open>None\<close> and the registry has the key \<^verbatim>\<open>None\<close>, both
  names denote one dictionary object, so an assignment to \<^verbatim>\<open>section_selectors\<close> is
  seen through \<^verbatim>\<open>default_selectors\<close> as well: that is the flag \<open>aliased\<close>.  (Without
  the key both are fresh empty dictionaries and the loop does not run.)  The assignment
  replaces the value of a key the dictionary already has, so the iteration goes on over
  the same options.
\<close>

fun merge_receivers ::
  "bool \<Rightarrow> 'o list \<Rightarrow> ('o \<times> 'f receiver list) list \<Rightarrow> ('o \<times> 'f receiver list) list \<Rightarrow>
   ('o \<times> 'f receiver list) list" where
  "merge_receivers aliased [] default_selectors section_selectors = section_selectors"
| "merge_receivers aliased (option # rest) default_selectors section_selectors =
     (let default_option_receivers = get_default default_selectors option [];
          section_option_receivers = get_default section_selectors option [];
          merged_receivers = default_option_receivers @ section_option_receivers;
          section_selectors = AList.update option merged_receivers section_selectors
      in merge_receivers aliased rest
           (if aliased then section_selectors else default_selectors) section_selectors)"

definition merge_none_observers :: "('o, 'f) observer \<Rightarrow> ('o, 'f) observer" where
  "merge_none_observers self =
     (let default_selectors = get_default (configuration_listeners self) None [];
          section_selectors =
            get_default (configuration_listeners self) (CONF_SECTION self) [];
          section_selectors =
            merge_receivers (CONF_SECTION self = None) (map fst default_selectors)
              default_selectors section_selectors
      in self\<lparr>configuration_listeners :=
           AList.delete None
             (AList.update (CONF_SECTION self) section_selectors
                (configuration_listeners self))\<rparr>)"

text \<open>
  The registration loop of \<^verbatim>\<open>__init__\<close>: the calls
  \<^verbatim>\<open>CONF.observe_configuration(self, section, option)\<close> it makes, in order.  The
  subscript \<^verbatim>\<open>self._configuration_listeners[section]\<close> raises \<^verbatim>\<open>KeyError\<close> on a
  missing key.
\<close>

fun observe_sections ::
  "('o, 'f) observer \<Rightarrow> string option list \<Rightarrow> 'x exn + (string option \<times> 'o) list" where
  "observe_sections self [] = Inr []"
| "observe_sections self (section # rest) =
     (let section = (if section = None then CONF_SECTION self else section) in
      case map_of (configuration_listeners self) section of
        None \<Rightarrow> Inl KeyError
      | Some observed_options \<Rightarrow>
          (case observe_sections self rest of
             Inl e \<Rightarrow> Inl e
           | Inr observed \<Rightarrow>
               Inr (map (\<lambda>option. (section, option)) (map fst observed_options) @ observed)))"

text \<open>
  \<^verbatim>\<open>__init__\<close>, from the class of the object: \<^verbatim>\<open>CONF_SECTION\<close> and the attributes
  with their \<^verbatim>\<open>_conf_listen\<close>.  It returns the observer, whether the warning about
  a missing \<^verbatim>\<open>CONF_SECTION\<close> was issued, and the options it asked \<^verbatim>\<open>CONF\<close> to observe.
\<close>

definition init ::
  "bool \<Rightarrow> string option \<Rightarrow> (string \<times> 'o conf_listen option) list \<Rightarrow>
   'x exn + (('o, 'f) observer \<times> bool \<times> (string option \<times> 'o) list)" where
  "init PYSIDE6 CONF_SECTION' methods =
     (let warned = (CONF_SECTION' = None);
          self = \<lparr>CONF_SECTION = CONF_SECTION', attributes = map fst methods,
                   configuration_listeners = [], multi_option_listeners = {}\<rparr>;
          self = gather_observers PYSIDE6 methods self;
          self = merge_none_observers self
      in case observe_sections self (map fst (configuration_listeners self)) of
           Inl e \<Rightarrow> Inl e
         | Inr observed \<Rightarrow> Inr (self, warned, observed))"

text \<open>
  \<^verbatim>\<open>receiver if callable(receiver) else getattr(self, receiver)\<close>: a method name is
  not callable and is looked up on the object.
\<close>

fun method_of :: "('o, 'f) observer \<Rightarrow> 'f receiver \<Rightarrow> 'x exn + 'f pymethod" where
  "method_of self (Callable f) = Inr (Function f)"
| "method_of self (Name name) =
     (if name \<in> set (attributes self) then Inr (BoundMethod name) else Inl AttributeError)"

text \<open>
  \<^verbatim>\<open>receiver in self._multi_option_listeners\<close>.  The set holds method names.  The
  test hashes the receiver and compares it with the members that have the same hash.
  For a method name, a string, that is plain membership.  For a callable it is up to the
  object: \<open>in_names f names\<close> is the outcome for the callable \<open>f\<close>, an exception when
  hashing it fails (\<^verbatim>\<open>TypeError\<close> for an unhashable object), otherwise whether the set
  has a member equal to it.
\<close>

fun is_multi ::
  "('f \<Rightarrow> string set \<Rightarrow> 'x exn + bool) \<Rightarrow> ('o, 'f) observer \<Rightarrow> 'f receiver \<Rightarrow>
   'x exn + bool" where
  "is_multi in_names self (Name name) = Inr (name \<in> multi_option_listeners self)"
| "is_multi in_names self (Callable f) = in_names f (multi_option_listeners self)"

text \<open>\<^verbatim>\<open>method(option, value)\<close> or \<^verbatim>\<open>method(value)\<close>.\<close>

definition arguments :: "bool \<Rightarrow> 'o \<Rightarrow> 'v \<Rightarrow> ('o, 'v) arg list" where
  "arguments multi option value =
     (if multi then [ArgOption option, ArgValue value] else [ArgValue value])"

text \<open>
  The loop of \<^verbatim>\<open>on_configuration_change\<close>.  Each round looks the method up, tests the
  receiver for membership in \<^verbatim>\<open>_multi_option_listeners\<close> and calls the method.  What
  a receiver does when called is outside this module: \<open>behaviour\<close> says for each call
  whether it raises (\<open>Some e\<close>) or returns (\<open>None\<close>); a receiver is taken not to
  change the registry while the loop runs.  The loop has no exception handler, so the
  first exception ends it.  The result is the list of calls made and the exception that
  ended the loop, if any.
\<close>

fun notify ::
  "('f \<Rightarrow> string set \<Rightarrow> 'x exn + bool) \<Rightarrow>
   ('f pymethod \<times> ('o, 'v) arg list \<Rightarrow> 'x option) \<Rightarrow> ('o, 'f) observer \<Rightarrow> 'o \<Rightarrow> 'v \<Rightarrow>
   'f receiver list \<Rightarrow> ('f pymethod \<times> ('o, 'v) arg list) list \<times> 'x exn option" where
  "notify in_names behaviour self option value [] = ([], None)"
| "notify in_names behaviour self option value (receiver # rest) =
     (case method_of self receiver of
        Inl e \<Rightarrow> ([], Some e)
      | Inr method \<Rightarrow>
          (case is_multi in_names self receiver of
             Inl e \<Rightarrow> ([], Some e)
           | Inr multi \<Rightarrow>
               (let call = (method, arguments multi option value) in
                case behaviour call of
                  Some e \<Rightarrow> ([call], Some (External e))
                | None \<Rightarrow>
                    (case notify in_names behaviour self option value rest of
                       (calls, outcome) \<Rightarrow> (call # calls, outcome)))))"

definition on_configuration_change ::
  "('f \<Rightarrow> string set \<Rightarrow> 'x exn + bool) \<Rightarrow>
   ('f pymethod \<times> ('o, 'v) arg list \<Rightarrow> 'x option) \<Rightarrow> ('o, 'f) observer \<Rightarrow> 'o \<Rightarrow>
   string option \<Rightarrow> 'v \<Rightarrow>
   ('o, 'f) observer \<times> ('f pymethod \<times> ('o, 'v) arg list) list \<times> 'x exn option" where
  "on_configuration_change in_names behaviour self option section value =
     (let section_receivers = get_default (configuration_listeners self) section [];
          option_receivers = get_default section_receivers option []
      in (self, notify in_names behaviour self option value option_receivers))"

text \<open>
  \<^verbatim>\<open>add_configuration_observer\<close> returns the observer and the call
  \<^verbatim>\<open>CONF.observe_configuration(self, section, option)\<close> it makes.
\<close>

definition add_configuration_observer ::
  "'f \<Rightarrow> 'o \<Rightarrow> string option \<Rightarrow> ('o, 'f) observer \<Rightarrow>
   ('o, 'f) observer \<times> (string option \<times> 'o)" where
  "add_configuration_observer func option section self =
     (let section = (if section = None then CONF_SECTION self else section)
      in (add_listener (Callable func) option section self, (section, option)))"

section \<open>Registration order\<close>

text \<open>
  The calls of \<^verbatim>\<open>_add_listener\<close> that \<^verbatim>\<open>_gather_observers\<close> makes, in order, as
  triples of receiver, option and section; and those behind a sequence of
  \<^verbatim>\<open>add_configuration_observer\<close> calls, where a section \<^verbatim>\<open>None\<close> has been replaced
  by \<^verbatim>\<open>CONF_SECTION\<close>.
\<close>

fun registrations ::
  "bool \<Rightarrow> (string \<times> 'o conf_listen option) list \<Rightarrow> ('f receiver \<times> 'o \<times> string option) list"
  where
  "registrations PYSIDE6 [] = []"
| "registrations PYSIDE6 ((method_name, conf_listen) # rest) =
     (if skipped PYSIDE6 method_name
      then registrations PYSIDE6 rest
      else case conf_listen of
        None \<Rightarrow> registrations PYSIDE6 rest
      | Some info \<Rightarrow>
          map (\<lambda>(section, option). (Name method_name, option, section)) info @
          registrations PYSIDE6 rest)"

definition added ::
  "string option \<Rightarrow> ('f \<times> 'o \<times> string option) list \<Rightarrow> ('f receiver \<times> 'o \<times> string option) list"
  where
  "added CONF_SECTION' observers =
     map (\<lambda>(func, option, section).
            (Callable func, option, if section = None then CONF_SECTION' else section))
       observers"

text \<open>The receivers registered under exactly this section and option, oldest first.\<close>

definition registered ::
  "('f receiver \<times> 'o \<times> string option) list \<Rightarrow> string option \<Rightarrow> 'o \<Rightarrow> 'f receiver list" where
  "registered regs section option =
     map fst (filter (\<lambda>(func, option', section'). section' = section \<and> option' = option) regs)"


text \<open>The receiver list stored for a section and option, empty where there is none.\<close>

definition receivers_for :: "('o, 'f) listeners \<Rightarrow> string option \<Rightarrow> 'o \<Rightarrow> 'f receiver list" where
  "receivers_for listeners section option =
     get_default (get_default listeners section []) option []"

text \<open>
  The order in which the receivers of a section and option are stored once \<^verbatim>\<open>__init__\<close>
  has run and observers have been added: for \<^verbatim>\<open>CONF_SECTION\<close>, the methods declared
  without a section come first; then the methods declared with the section by name;
  then the callables added later.  Nothing is stored under \<^verbatim>\<open>None\<close> by \<^verbatim>\<open>__init__\<close>.
\<close>

definition call_order ::
  "bool \<Rightarrow> string option \<Rightarrow> (string \<times> 'o conf_listen option) list \<Rightarrow>
   ('f \<times> 'o \<times> string option) list \<Rightarrow> string option \<Rightarrow> 'o \<Rightarrow> 'f receiver list" where
  "call_order PYSIDE6 CONF_SECTION' methods observers section option =
     (if section = None then []
      else (if section = CONF_SECTION'
            then registered (registrations PYSIDE6 methods) None option else []) @
           registered (registrations PYSIDE6 methods) section option) @
     registered (added CONF_SECTION' observers) section option"

text \<open>A sequence of \<^verbatim>\<open>add_configuration_observer\<close> calls on one observer.\<close>

fun add_configuration_observers ::
  "('f \<times> 'o \<times> string option) list \<Rightarrow> ('o, 'f) observer \<Rightarrow> ('o, 'f) observer" where
  "add_configuration_observers [] self = self"
| "add_configuration_observers ((func, option, section) # rest) self =
     add_configuration_observers rest (fst (add_configuration_observer func option section self))"

text \<open>The method a receiver stands for, when the lookup by name succeeds.\<close>

fun resolved :: "'f receiver \<Rightarrow> 'f pymethod" where
  "resolved (Callable f) = Function f"
| "resolved (Name name) = BoundMethod name"


text \<open>
  The registry is well formed when it is a dictionary of dictionaries: no key occurs
  twice, at either level.
\<close>

definition well_formed :: "('o, 'f) listeners \<Rightarrow> bool" where
  "well_formed listeners \<longleftrightarrow>
     distinct (map fst listeners) \<and>
     (\<forall>(section, section_listeners) \<in> set listeners. distinct (map fst section_listeners))"

section \<open>An example class\<close>

text \<open>
  An observer class with \<^verbatim>\<open>CONF_SECTION = 'sec'\<close> and four attributes: \<^verbatim>\<open>a\<close> observes
  \<^verbatim>\<open>opt\<close> with the section spelled out, \<^verbatim>\<open>b\<close> observes \<^verbatim>\<open>opt\<close> with the section
  left to \<^verbatim>\<open>CONF_SECTION\<close>, \<^verbatim>\<open>c\<close> observes two options, \<^verbatim>\<open>d\<close> is not decorated.
  \<open>example_observer\<close> is the state \<^verbatim>\<open>__init__\<close> builds for it.
\<close>

definition example_methods :: "(string \<times> string conf_listen option) list" where
  "example_methods =
     [(''a'', Some [(Some ''sec'', ''opt'')]),
      (''b'', Some [(None, ''opt'')]),
      (''c'', Some [(None, ''x''), (Some ''other'', ''y'')]),
      (''d'', None)]"

definition example_observer :: "(string, nat) observer" where
  "example_observer =
     \<lparr>CONF_SECTION = Some ''sec'', attributes = [''a'', ''b'', ''c'', ''d''],
      configuration_listeners =
        [(Some ''sec'', [(''opt'', [Name ''b'', Name ''a'']), (''x'', [Name ''c''])]),
         (Some ''other'', [(''y'', [Name ''c''])])],
      multi_option_listeners = {''c''}\<rparr>"

text \<open>
  The state \<^verbatim>\<open>__init__\<close> builds for the same attributes in a class that leaves
  \<^verbatim>\<open>CONF_SECTION\<close> at \<^verbatim>\<open>None\<close>.
\<close>

definition example_observer_no_section :: "(string, nat) observer" where
  "example_observer_no_section =
     \<lparr>CONF_SECTION = None, attributes = [''a'', ''b'', ''c'', ''d''],
      configuration_listeners =
        [(Some ''sec'', [(''opt'', [Name ''a''])]),
         (Some ''other'', [(''y'', [Name ''c''])])],
      multi_option_listeners = {''c''}\<rparr>"

text \<open>
  Receivers that all return normally, and receivers of which the method \<^verbatim>\<open>b\<close>
  raises.
\<close>

definition returns :: "nat pymethod \<times> (string, int) arg list \<Rightarrow> string option" where
  "returns call = None"


text \<open>
  Callables, numbered: number 6 is an object that cannot be hashed, every other one is
  a plain function, hashable and equal to no method name.
\<close>

definition example_in_names :: "nat \<Rightarrow> string set \<Rightarrow> string exn + bool" where
  "example_in_names f names = (if f = 6 then Inl TypeError else Inr False)"

text \<open>
  A configuration system to run the accessors on: the state is a list of section, option
  and value; reading a missing option without a default fails.
\<close>

definition example_CONF_get ::
  "string \<Rightarrow> string \<Rightarrow> int option \<Rightarrow> bool \<Rightarrow> ((string \<times> string) \<times> int) list \<Rightarrow>
   (string + int) \<times> ((string \<times> string) \<times> int) list" where
  "example_CONF_get section option default' secure conf =
     (case map_of conf (section, option) of
        Some v \<Rightarrow> (Inr v, conf)
      | None \<Rightarrow> (case default' of Some v \<Rightarrow> (Inr v, conf) | None \<Rightarrow> (Inl ''NoOptionError'', conf)))"

definition example_CONF_options ::
  "string \<Rightarrow> ((string \<times> string) \<times> int) list \<Rightarrow>
   (string + string list) \<times> ((string \<times> string) \<times> int) list" where
  "example_CONF_options section conf =
     (Inr (map (snd \<circ> fst) (filter (\<lambda>((section', option), v). section' = section) conf)), conf)"

definition example_CONF_set ::
  "string \<Rightarrow> string \<Rightarrow> int \<Rightarrow> bool \<Rightarrow> bool \<Rightarrow> ((string \<times> string) \<times> int) list \<Rightarrow>
   (string + unit) \<times> ((string \<times> string) \<times> int) list" where
  "example_CONF_set section option value recursive_notification secure conf =
     (Inr (), AList.update (section, option) value conf)"

definition example_CONF_remove_option ::
  "string \<Rightarrow> string \<Rightarrow> bool \<Rightarrow> ((string \<times> string) \<times> int) list \<Rightarrow>
   (string + unit) \<times> ((string \<times> string) \<times> int) list" where
  "example_CONF_remove_option section option secure conf =
     (Inr (), AList.delete (section, option) conf)"

definition example_CONF_get_default ::
  "string \<Rightarrow> string \<Rightarrow> ((string \<times> string) \<times> int) list \<Rightarrow>
   (string + int) \<times> ((string \<times> string) \<times> int) list" where
  "example_CONF_get_default section option conf = (Inr 0, conf)"

section \<open>Properties of the constant tables\<close>

lemma SymbolKind_declared_ints:
  "filter isinstance_int (map snd SymbolKind_body) =
     map PInt [1, 2, 3, 4, 5, 6, 7, 8, 9, 10, 11, 12, 13, 14, 15, 16, 17, 18, 19, 20, 21,
       22, 23, 24, 25, 26, 224, 225]"
  by (simp add: SymbolKind_body_def SymbolKind_defs)

lemma int_values_SymbolKind_dict:
  "int_values (SymbolKind_dict before after) =
     filter isinstance_int (map snd before) @
     filter isinstance_int (map snd SymbolKind_body) @
     filter isinstance_int (map snd after)"
  by (simp add: int_values_def SymbolKind_dict_def class_dict_def)

lemma valueSet:
  "subscripts (WORKSPACE_CAPABILITIES before after)
     [''executeCommand'', ''symbolKind'', ''valueSet''] =
   Some (PList (int_values (SymbolKind_dict before after)))"
  by (simp add: WORKSPACE_CAPABILITIES_def)

lemma CLIENT_CAPABILITES_keys:
  "dict_keys (CLIENT_CAPABILITES before after) = Some [''workspace'', ''textDocument''] \<and>
   subscript (CLIENT_CAPABILITES before after) ''workspace'' =
     Some (WORKSPACE_CAPABILITIES before after) \<and>
   subscript (CLIENT_CAPABILITES before after) ''textDocument'' = Some TEXT_EDITOR_CAPABILITES"
  by (simp add: CLIENT_CAPABILITES_def)

text \<open>
  The interpreter's own entries of the class namespace do not count as long as none of
  them is an integer: the value set is then the list of the declared integers, whatever
  these entries are.  CPython 3.8 to 3.12 are such interpreters.
\<close>

lemma valueSet_declared:
  assumes "\<forall>v \<in> snd ` set before. \<not> isinstance_int v"
    and "\<forall>v \<in> snd ` set after. \<not> isinstance_int v"
  shows "subscripts (WORKSPACE_CAPABILITIES before after)
       [''executeCommand'', ''symbolKind'', ''valueSet''] =
     Some (PList (filter isinstance_int (map snd SymbolKind_body)))"
proof -
  have "filter isinstance_int (map snd before) = []"
    using assms(1) by (auto simp: filter_empty_conv)
  moreover have "filter isinstance_int (map snd after) = []"
    using assms(2) by (auto simp: filter_empty_conv)
  ultimately have "int_values (SymbolKind_dict before after) =
      filter isinstance_int (map snd SymbolKind_body)"
    by (simp add: int_values_SymbolKind_dict)
  then show ?thesis
    by (simp only: valueSet)
qed

lemma valueSet_cpython_312:
  "subscripts (WORKSPACE_CAPABILITIES SymbolKind_before cpython_after)
     [''executeCommand'', ''symbolKind'', ''valueSet''] =
   Some (PList (filter isinstance_int (map snd SymbolKind_body)))"
  by (rule valueSet_declared) (simp_all add: SymbolKind_before_def cpython_before_def
      cpython_after_def)

text \<open>
  C9.  The symbol-icon table is total over the symbol kinds: every integer constant
  declared in \<^verbatim>\<open>SymbolKind\<close>, the non-standard \<^verbatim>\<open>BLOCK_COMMENT\<close> (224) and \<^verbatim>\<open>CELL\<close>
  (225) among them, is a key of \<^verbatim>\<open>SYMBOL_KIND_ICON\<close>, and the icon name stored under it
  is not the empty string.
\<close>

theorem SYMBOL_KIND_ICON_total:
  "\<forall>(name, v) \<in> set SymbolKind_body.
     \<exists>i icon. v = PInt i \<and> map_of SYMBOL_KIND_ICON i = Some icon \<and> icon \<noteq> ''''"
  by (simp add: SymbolKind_body_def SYMBOL_KIND_ICON_def SymbolKind_defs)

theorem SYMBOL_KIND_ICON_total_witness:
  "(''CELL'', PInt 225) \<in> set SymbolKind_body \<and>
   (\<exists>i icon. PInt 225 = PInt i \<and> map_of SYMBOL_KIND_ICON i = Some icon \<and> icon \<noteq> '''')"
proof -
  have m: "(''CELL'', PInt 225) \<in> set SymbolKind_body"
    by (simp add: SymbolKind_body_def SymbolKind_defs)
  from SYMBOL_KIND_ICON_total m
  have "case (''CELL'', PInt 225) of (name, v) \<Rightarrow>
          \<exists>i icon. v = PInt i \<and> map_of SYMBOL_KIND_ICON i = Some icon \<and> icon \<noteq> ''''"
    by (rule bspec)
  with m show ?thesis by simp
qed

text \<open>
  C4.  \<^verbatim>\<open>CLIENT_CAPABILITES\<close> has exactly the keys \<^verbatim>\<open>workspace\<close> and
  \<^verbatim>\<open>textDocument\<close>, bound to \<^verbatim>\<open>WORKSPACE_CAPABILITIES\<close> and \<^verbatim>\<open>TEXT_EDITOR_CAPABILITES\<close>.
  The value set under \<^verbatim>\<open>executeCommand\<close>, \<^verbatim>\<open>symbolKind\<close>, \<^verbatim>\<open>valueSet\<close> is not always
  the list of the integer constants declared in \<^verbatim>\<open>SymbolKind\<close>: it is every integer
  found in the class namespace, and imported by CPython 3.13 the list starts with 33,
  the line of the \<^verbatim>\<open>class\<close> statement.
\<close>

theorem valueSet_firstlineno:
  "dict_keys (CLIENT_CAPABILITES SymbolKind_before_313 cpython313_after) =
     Some [''workspace'', ''textDocument''] \<and>
   subscript (CLIENT_CAPABILITES SymbolKind_before_313 cpython313_after) ''workspace'' =
     Some (WORKSPACE_CAPABILITIES SymbolKind_before_313 cpython313_after) \<and>
   subscript (CLIENT_CAPABILITES SymbolKind_before_313 cpython313_after) ''textDocument'' =
     Some TEXT_EDITOR_CAPABILITES \<and>
   subscripts (WORKSPACE_CAPABILITIES SymbolKind_before_313 cpython313_after)
       [''executeCommand'', ''symbolKind'', ''valueSet''] =
     Some (PList (map PInt [33, 1, 2, 3, 4, 5, 6, 7, 8, 9, 10, 11, 12, 13, 14, 15, 16, 17,
       18, 19, 20, 21, 22, 23, 24, 25, 26, 224, 225])) \<and>
   filter isinstance_int (map snd SymbolKind_body) =
     map PInt [1, 2, 3, 4, 5, 6, 7, 8, 9, 10, 11, 12, 13, 14, 15, 16, 17, 18, 19, 20, 21,
       22, 23, 24, 25, 26, 224, 225] \<and>
   subscripts (WORKSPACE_CAPABILITIES SymbolKind_before_313 cpython313_after)
       [''executeCommand'', ''symbolKind'', ''valueSet''] \<noteq>
     Some (PList (filter isinstance_int (map snd SymbolKind_body)))"
proof -
  have "int_values (SymbolKind_dict SymbolKind_before_313 cpython313_after) =
      PInt 33 # filter isinstance_int (map snd SymbolKind_body)"
    by (simp add: int_values_SymbolKind_dict SymbolKind_before_313_def cpython313_before_def
        cpython313_after_def)
  then have v: "subscripts (WORKSPACE_CAPABILITIES SymbolKind_before_313 cpython313_after)
      [''executeCommand'', ''symbolKind'', ''valueSet''] =
      Some (PList (PInt 33 # filter isinstance_int (map snd SymbolKind_body)))"
    by (simp only: valueSet)
  show ?thesis
    unfolding v by (simp add: CLIENT_CAPABILITES_keys SymbolKind_declared_ints)
qed

text \<open>
  C2.  The request type \<^verbatim>\<open>DOCUMENT_REFERENCES\<close> is not the method name
  \<^verbatim>\<open>textDocument/references\<close> of the Language Server Protocol: the string of the source
  starts with a space.
\<close>

theorem DOCUMENT_REFERENCES_leading_space:
  "map_of CompletionRequestTypes ''DOCUMENT_REFERENCES'' = Some (CHR '' '' # ''textDocument/references'') \<and>
   map_of CompletionRequestTypes ''DOCUMENT_REFERENCES'' \<noteq> Some ''textDocument/references'' \<and>
   map_of CompletionRequestTypes ''DOCUMENT_COMPLETION'' = Some ''textDocument/completion'' \<and>
   map_of CompletionRequestTypes ''INITIALIZE'' = Some ''initialize''"
  by (simp add: CompletionRequestTypes_def)

text \<open>
  C6.  The provider interface has the lifecycle hooks \<^verbatim>\<open>start\<close>, \<^verbatim>\<open>shutdown\<close> and
  \<^verbatim>\<open>update_configuration\<close>.  \<^verbatim>\<open>start\<close> emits \<^verbatim>\<open>sig_provider_ready\<close> once, with the
  provider's \<^verbatim>\<open>COMPLETION_CLIENT_NAME\<close>, and changes nothing else; the default
  \<^verbatim>\<open>shutdown\<close> and \<^verbatim>\<open>update_configuration\<close> do nothing; the default
  \<^verbatim>\<open>start_provider\<close> returns \<^verbatim>\<open>False\<close> and \<^verbatim>\<open>can_close\<close> returns \<^verbatim>\<open>True\<close>, for every
  language.
\<close>

theorem provider_lifecycle:
  "start self = (self, [sig_provider_ready (COMPLETION_CLIENT_NAME self)]) \<and>
   shutdown self = self \<and>
   update_configuration self config' = self \<and>
   start_provider self language = False \<and>
   can_close self = True"
  by (simp add: start_def shutdown_def update_configuration_def start_provider_def
      can_close_def)

section \<open>The configuration accessor\<close>

text \<open>
  C5.  The accessors \<^verbatim>\<open>get_conf\<close>, \<^verbatim>\<open>get_conf_options\<close>, \<^verbatim>\<open>set_conf\<close>,
  \<^verbatim>\<open>remove_conf\<close> and \<^verbatim>\<open>get_conf_default\<close> raise no exception class of their own: the
  one exception they raise themselves is the built-in \<^verbatim>\<open>AttributeError\<close>.  Each raises
  it exactly when its section argument and \<^verbatim>\<open>CONF_SECTION\<close> are both \<^verbatim>\<open>None\<close>, and
  then the configuration is neither read nor written: the result does not depend on
  the configuration manager, and the state comes back as it was.
\<close>

theorem accessor_AttributeError:
  "(fst (get_conf CONF_get cs option default' section secure conf) = Inl AttributeError
      \<longleftrightarrow> section = None \<and> cs = None) \<and>
   (fst (get_conf_options CONF_options cs section conf) = Inl AttributeError
      \<longleftrightarrow> section = None \<and> cs = None) \<and>
   (fst (set_conf CONF_set cs option value' section recursive_notification secure conf)
      = Inl AttributeError \<longleftrightarrow> section = None \<and> cs = None) \<and>
   (fst (remove_conf CONF_remove_option cs option section secure conf) = Inl AttributeError
      \<longleftrightarrow> section = None \<and> cs = None) \<and>
   (fst (get_conf_default CONF_get_default cs option section conf) = Inl AttributeError
      \<longleftrightarrow> section = None \<and> cs = None) \<and>
   fst (get_conf CONF_get cs option default' section secure conf) \<noteq> Inl KeyError \<and>
   fst (get_conf CONF_get cs option default' section secure conf) \<noteq> Inl TypeError \<and>
   fst (get_conf_options CONF_options cs section conf) \<noteq> Inl KeyError \<and>
   fst (get_conf_options CONF_options cs section conf) \<noteq> Inl TypeError \<and>
   fst (set_conf CONF_set cs option value' section recursive_notification secure conf)
     \<noteq> Inl KeyError \<and>
   fst (set_conf CONF_set cs option value' section recursive_notification secure conf)
     \<noteq> Inl TypeError \<and>
   fst (remove_conf CONF_remove_option cs option section secure conf) \<noteq> Inl KeyError \<and>
   fst (remove_conf CONF_remove_option cs option section secure conf) \<noteq> Inl TypeError \<and>
   fst (get_conf_default CONF_get_default cs option section conf) \<noteq> Inl KeyError \<and>
   fst (get_conf_default CONF_get_default cs option section conf) \<noteq> Inl TypeError \<and>
   (section = None \<and> cs = None \<longrightarrow>
      get_conf CONF_get cs option default' section secure conf = (Inl AttributeError, conf) \<and>
      get_conf_options CONF_options cs section conf = (Inl AttributeError, conf) \<and>
      set_conf CONF_set cs option value' section recursive_notification secure conf
        = (Inl AttributeError, conf) \<and>
      remove_conf CONF_remove_option cs option section secure conf
        = (Inl AttributeError, conf) \<and>
      get_conf_default CONF_get_default cs option section conf = (Inl AttributeError, conf))"
proof -
  have 1: "(fst (get_conf CONF_get cs option default' section secure conf) = Inl AttributeError
      \<longleftrightarrow> section = None \<and> cs = None) \<and>
      fst (get_conf CONF_get cs option default' section secure conf) \<noteq> Inl KeyError \<and>
   fst (get_conf CONF_get cs option default' section secure conf) \<noteq> Inl TypeError"
    by (auto simp: get_conf_def split: option.splits prod.splits sum.splits)
  have 2: "(fst (get_conf_options CONF_options cs section conf) = Inl AttributeError
      \<longleftrightarrow> section = None \<and> cs = None) \<and>
      fst (get_conf_options CONF_options cs section conf) \<noteq> Inl KeyError \<and>
   fst (get_conf_options CONF_options cs section conf) \<noteq> Inl TypeError"
    by (auto simp: get_conf_options_def split: option.splits prod.splits sum.splits)
  have 3: "(fst (set_conf CONF_set cs option value' section recursive_notification secure conf)
      = Inl AttributeError \<longleftrightarrow> section = None \<and> cs = None) \<and>
      fst (set_conf CONF_set cs option value' section recursive_notification secure conf)
      \<noteq> Inl KeyError \<and>
   fst (set_conf CONF_set cs option value' section recursive_notification secure conf)
      \<noteq> Inl TypeError"
    by (auto simp: set_conf_def split: option.splits prod.splits sum.splits)
  have 4: "(fst (remove_conf CONF_remove_option cs option section secure conf)
      = Inl AttributeError \<longleftrightarrow> section = None \<and> cs = None) \<and>
      fst (remove_conf CONF_remove_option cs option section secure conf) \<noteq> Inl KeyError \<and>
   fst (remove_conf CONF_remove_option cs option section secure conf) \<noteq> Inl TypeError"
    by (auto simp: remove_conf_def split: option.splits prod.splits sum.splits)
  have 5: "(fst (get_conf_default CONF_get_default cs option section conf) = Inl AttributeError
      \<longleftrightarrow> section = None \<and> cs = None) \<and>
      fst (get_conf_default CONF_get_default cs option section conf) \<noteq> Inl KeyError \<and>
   fst (get_conf_default CONF_get_default cs option section conf) \<noteq> Inl TypeError"
    by (auto simp: get_conf_default_def split: option.splits prod.splits sum.splits)
  have 6: "section = None \<and> cs = None \<longrightarrow>
      get_conf CONF_get cs option default' section secure conf = (Inl AttributeError, conf) \<and>
      get_conf_options CONF_options cs section conf = (Inl AttributeError, conf) \<and>
      set_conf CONF_set cs option value' section recursive_notification secure conf
        = (Inl AttributeError, conf) \<and>
      remove_conf CONF_remove_option cs option section secure conf
        = (Inl AttributeError, conf) \<and>
      get_conf_default CONF_get_default cs option section conf = (Inl AttributeError, conf)"
    by (simp add: get_conf_def get_conf_options_def set_conf_def remove_conf_def
        get_conf_default_def)
  from 1 2 3 4 5 6 show ?thesis by blast
qed

theorem accessor_AttributeError_witness:
  "get_conf example_CONF_get None ''opt'' (Some 7) None False [((''sec'', ''opt''), 3)]
     = (Inl AttributeError, [((''sec'', ''opt''), 3)]) \<and>
   get_conf_options example_CONF_options None None [((''sec'', ''opt''), 3)]
     = (Inl AttributeError, [((''sec'', ''opt''), 3)]) \<and>
   set_conf example_CONF_set None ''opt'' 5 None True False [((''sec'', ''opt''), 3)]
     = (Inl AttributeError, [((''sec'', ''opt''), 3)]) \<and>
   remove_conf example_CONF_remove_option None ''opt'' None False [((''sec'', ''opt''), 3)]
     = (Inl AttributeError, [((''sec'', ''opt''), 3)]) \<and>
   get_conf_default example_CONF_get_default None ''opt'' None [((''sec'', ''opt''), 3)]
     = (Inl AttributeError, [((''sec'', ''opt''), 3)]) \<and>
   fst (set_conf example_CONF_set None ''opt'' 5 (Some ''sec'') True False
          [((''sec'', ''opt''), 3)]) \<noteq> Inl AttributeError"
  using accessor_AttributeError [where ?section = None and cs = None
      and CONF_get = example_CONF_get and CONF_options = example_CONF_options
      and CONF_set = example_CONF_set and CONF_remove_option = example_CONF_remove_option
      and CONF_get_default = example_CONF_get_default
      and option = "''opt''" and default' = "Some 7" and secure = False
      and recursive_notification = True and conf = "[((''sec'', ''opt''), 3)]" and value' = 5]
    accessor_AttributeError [where ?section = "Some ''sec''" and cs = None
      and CONF_get = example_CONF_get and CONF_options = example_CONF_options
      and CONF_set = example_CONF_set and CONF_remove_option = example_CONF_remove_option
      and CONF_get_default = example_CONF_get_default
      and option = "''opt''" and default' = "Some 7" and secure = False
      and recursive_notification = True and conf = "[((''sec'', ''opt''), 3)]" and value' = 5]
  by simp

section \<open>The configuration observer\<close>

lemma on_configuration_change_notify:
  "on_configuration_change in_names behaviour self option section value =
     (self, notify in_names behaviour self option value
        (get_default (get_default (configuration_listeners self) section []) option []))"
  by (simp add: on_configuration_change_def)

text \<open>
  C8.  When no listener is registered for a section and option,
  \<^verbatim>\<open>on_configuration_change\<close> returns normally: it calls no receiver, raises nothing
  and leaves the observer, its registry included, as it was.
\<close>

theorem no_listener_no_call:
  assumes "get_default (get_default (configuration_listeners self) section []) option [] = []"
  shows "on_configuration_change in_names behaviour self option section value = (self, [], None)"
  using assms by (simp add: on_configuration_change_notify)

theorem no_listener_no_call_witness:
  "get_default (get_default (configuration_listeners example_observer) (Some ''sec'') [])
     ''y'' [] = [] \<and>
   get_default (get_default (configuration_listeners example_observer) (Some ''gone'') [])
     ''opt'' [] = [] \<and>
   on_configuration_change example_in_names returns example_observer ''y'' (Some ''sec'') 1
     = (example_observer, [], None) \<and>
   on_configuration_change example_in_names returns example_observer ''opt'' (Some ''gone'') 1
     = (example_observer, [], None)"
proof -
  have a: "get_default (get_default (configuration_listeners example_observer)
      (Some ''sec'') []) ''y'' [] = []"
    by (simp add: example_observer_def get_default_def)
  have b: "get_default (get_default (configuration_listeners example_observer)
      (Some ''gone'') []) ''opt'' [] = []"
    by (simp add: example_observer_def get_default_def)
  show ?thesis
    using a b no_listener_no_call [OF a, of example_in_names returns 1]
      no_listener_no_call [OF b, of example_in_names returns 1]
    by simp
qed

subsection \<open>Dictionary operations\<close>

lemma get_default_update:
  "get_default (AList.update k v d) k' x = (if k' = k then v else get_default d k' x)"
  by (simp add: get_default_def update_conv')

lemma get_default_delete:
  "get_default (AList.delete k d) k' x = (if k' = k then x else get_default d k' x)"
  by (simp add: get_default_def delete_conv')

lemma get_default_Nil: "get_default [] k x = x"
  by (simp add: get_default_def)

lemma get_default_absent: "k \<notin> fst ` set d \<Longrightarrow> get_default d k x = x"
  by (simp add: get_default_def map_of_eq_None_iff [THEN iffD2])

lemma set_update_subset: "set (AList.update k v al) \<subseteq> insert (k, v) (set al)"
  by (induction al) auto

lemma set_delete_subset: "set (AList.delete k al) \<subseteq> set al"
  by (auto simp: AList.delete_eq)

lemma well_formed_section:
  assumes "well_formed listeners"
  shows "distinct (map fst (get_default listeners section []))"
proof (cases "map_of listeners section")
  case None
  then show ?thesis by (simp add: get_default_def)
next
  case (Some section_listeners)
  then have "(section, section_listeners) \<in> set listeners"
    by (rule map_of_SomeD)
  with assms have "distinct (map fst section_listeners)"
    unfolding well_formed_def by blast
  with Some show ?thesis
    by (simp add: get_default_def)
qed

lemma well_formed_update:
  assumes "well_formed listeners" and "distinct (map fst section_listeners)"
  shows "well_formed (AList.update section section_listeners listeners)"
  using assms set_update_subset [of "section" section_listeners listeners]
  by (auto simp: well_formed_def distinct_update)

lemma well_formed_delete:
  assumes "well_formed listeners"
  shows "well_formed (AList.delete section listeners)"
  using assms set_delete_subset [of "section" listeners]
  by (auto simp: well_formed_def distinct_delete)

subsection \<open>Registration\<close>

lemma add_listener_fields [simp]:
  "CONF_SECTION (add_listener func option section self) = CONF_SECTION self"
  "attributes (add_listener func option section self) = attributes self"
  "multi_option_listeners (add_listener func option section self) = multi_option_listeners self"
  by (simp_all add: add_listener_def Let_def)

lemma receivers_add_listener:
  "receivers_for (configuration_listeners (add_listener func option section self)) section' option' =
     (if section' = section \<and> option' = option
      then receivers_for (configuration_listeners self) section option @ [func]
      else receivers_for (configuration_listeners self) section' option')"
  by (simp add: add_listener_def receivers_for_def Let_def get_default_update)

lemma well_formed_add_listener:
  assumes "well_formed (configuration_listeners self)"
  shows "well_formed (configuration_listeners (add_listener func option section self))"
proof -
  have "distinct (map fst (get_default (configuration_listeners self) section []))"
    using assms by (rule well_formed_section)
  then have "distinct (map fst (AList.update option
      (get_default (get_default (configuration_listeners self) section []) option [] @ [func])
      (get_default (configuration_listeners self) section [])))"
    by (rule distinct_update)
  with assms show ?thesis
    by (simp add: add_listener_def Let_def well_formed_update)
qed

lemma registered_append:
  "registered (xs @ ys) section option = registered xs section option @ registered ys section option"
  by (simp add: registered_def)

lemma registered_Nil [simp]: "registered [] section option = []"
  by (simp add: registered_def)

lemma add_listeners_fields [simp]:
  "CONF_SECTION (add_listeners method_name info self) = CONF_SECTION self"
  "attributes (add_listeners method_name info self) = attributes self"
  "multi_option_listeners (add_listeners method_name info self) = multi_option_listeners self"
  by (induction method_name info self rule: add_listeners.induct) simp_all

lemma receivers_add_listeners:
  "receivers_for (configuration_listeners (add_listeners method_name info self)) section option =
     receivers_for (configuration_listeners self) section option @
     registered (map (\<lambda>(section, option). (Name method_name, option, section)) info)
       section option"
proof (induction method_name info self rule: add_listeners.induct)
  case (1 method_name self)
  show ?case by simp
next
  case (2 method_name section' option' info self)
  then show ?case
    by (auto simp: receivers_add_listener registered_def)
qed

lemma well_formed_add_listeners:
  "well_formed (configuration_listeners self) \<Longrightarrow>
   well_formed (configuration_listeners (add_listeners method_name info self))"
  by (induction method_name info self rule: add_listeners.induct)
    (simp_all add: well_formed_add_listener)

lemma gather_observers_fields [simp]:
  "CONF_SECTION (gather_observers PYSIDE6 methods self) = CONF_SECTION self"
  "attributes (gather_observers PYSIDE6 methods self) = attributes self"
  by (induction PYSIDE6 methods self rule: gather_observers.induct)
    (simp_all split: option.splits)

lemma receivers_gather_observers:
  "receivers_for (configuration_listeners (gather_observers PYSIDE6 methods self)) section option =
     receivers_for (configuration_listeners self) section option @
     registered (registrations PYSIDE6 methods) section option"
proof (induction PYSIDE6 methods self rule: gather_observers.induct)
  case (1 PYSIDE6 self)
  show ?case by simp
next
  case (2 PYSIDE6 method_name conf_listen rest self)
  show ?case
  proof (cases "skipped PYSIDE6 method_name")
    case True
    with "2.IH"(1) show ?thesis by simp
  next
    case False
    show ?thesis
    proof (cases conf_listen)
      case None
      with False "2.IH"(2) show ?thesis by simp
    next
      case (Some info)
      with False "2.IH"(3) show ?thesis
        by (simp add: receivers_add_listeners registered_append)
    qed
  qed
qed

lemma well_formed_gather_observers:
  "well_formed (configuration_listeners self) \<Longrightarrow>
   well_formed (configuration_listeners (gather_observers PYSIDE6 methods self))"
  by (induction PYSIDE6 methods self rule: gather_observers.induct)
    (simp_all add: well_formed_add_listeners split: option.splits)

lemma multi_gather_observers:
  "multi_option_listeners (gather_observers PYSIDE6 methods self) =
     multi_option_listeners self \<union>
     {method_name. \<exists>info. (method_name, Some info) \<in> set methods \<and>
        \<not> skipped PYSIDE6 method_name \<and> 1 < length info}"
  by (induction PYSIDE6 methods self rule: gather_observers.induct)
    (auto split: option.splits)

lemma registrations_Name:
  assumes "(receiver, option, section) \<in> set (registrations PYSIDE6 methods)"
  shows "\<exists>method_name info. receiver = Name method_name \<and>
     (method_name, Some info) \<in> set methods \<and>
     \<not> skipped PYSIDE6 method_name \<and>
     (section, option) \<in> set info"
  using assms
  by (induction PYSIDE6 methods rule: registrations.induct)
    (auto split: if_splits option.splits)

subsection \<open>Merging the listeners declared without a section\<close>

lemma distinct_merge_receivers:
  "distinct (map fst section_selectors) \<Longrightarrow>
   distinct (map fst (merge_receivers aliased options default_selectors section_selectors))"
  by (induction aliased options default_selectors section_selectors
      rule: merge_receivers.induct)
    (simp_all add: Let_def distinct_update)

lemma get_default_merge_receivers:
  assumes "distinct options"
  shows "get_default (merge_receivers False options default_selectors section_selectors) option [] =
     (if option \<in> set options
      then get_default default_selectors option [] @ get_default section_selectors option []
      else get_default section_selectors option [])"
  using assms
proof (induction options arbitrary: section_selectors)
  case Nil
  show ?case by simp
next
  case (Cons option' rest)
  then show ?case
    by (auto simp: Let_def get_default_update)
qed

lemma get_default_merge_all:
  assumes "distinct (map fst default_selectors)"
  shows "get_default (merge_receivers False (map fst default_selectors) default_selectors
       section_selectors) option [] =
     get_default default_selectors option [] @ get_default section_selectors option []"
proof (cases "option \<in> fst ` set default_selectors")
  case True
  with assms show ?thesis
    by (simp add: get_default_merge_receivers)
next
  case False
  then have "get_default default_selectors option [] = []"
    by (rule get_default_absent)
  with assms False show ?thesis
    by (simp add: get_default_merge_receivers)
qed

lemma merge_none_observers_fields [simp]:
  "CONF_SECTION (merge_none_observers self) = CONF_SECTION self"
  "attributes (merge_none_observers self) = attributes self"
  "multi_option_listeners (merge_none_observers self) = multi_option_listeners self"
  by (simp_all add: merge_none_observers_def Let_def)

lemma well_formed_merge_none_observers:
  assumes "well_formed (configuration_listeners self)"
  shows "well_formed (configuration_listeners (merge_none_observers self))"
proof -
  have "distinct (map fst (get_default (configuration_listeners self) (CONF_SECTION self) []))"
    using assms by (rule well_formed_section)
  then have "distinct (map fst (merge_receivers (CONF_SECTION self = None)
      (map fst (get_default (configuration_listeners self) None []))
      (get_default (configuration_listeners self) None [])
      (get_default (configuration_listeners self) (CONF_SECTION self) [])))"
    by (rule distinct_merge_receivers)
  with assms show ?thesis
    by (simp add: merge_none_observers_def Let_def well_formed_update well_formed_delete)
qed

lemma None_not_key_merge_none_observers:
  "None \<notin> fst ` set (configuration_listeners (merge_none_observers self))"
  by (simp add: merge_none_observers_def Let_def delete_notin_dom)

lemma receivers_merge_none_observers:
  assumes "well_formed (configuration_listeners self)"
  shows "receivers_for (configuration_listeners (merge_none_observers self)) section option =
     (if section = None then []
      else if section = CONF_SECTION self
      then receivers_for (configuration_listeners self) None option @
           receivers_for (configuration_listeners self) section option
      else receivers_for (configuration_listeners self) section option)"
proof -
  have d: "distinct (map fst (get_default (configuration_listeners self) None []))"
    using assms by (rule well_formed_section)
  show ?thesis
  proof (cases "section = None")
    case True
    then show ?thesis
      by (simp add: merge_none_observers_def Let_def receivers_for_def get_default_delete
          get_default_Nil)
  next
    case False
    show ?thesis
    proof (cases "section = CONF_SECTION self")
      case True
      with False obtain cs where cs: "CONF_SECTION self = Some cs" "section = Some cs"
        by (cases "CONF_SECTION self") auto
      from d show ?thesis
        by (simp add: cs merge_none_observers_def Let_def receivers_for_def get_default_delete
            get_default_update get_default_merge_all)
    next
      case other: False
      from False obtain s where s: "section = Some s"
        by (cases "section") auto
      from other show ?thesis
        by (simp add: s merge_none_observers_def Let_def receivers_for_def get_default_delete
            get_default_update)
    qed
  qed
qed

subsection \<open>The constructor\<close>

lemma observe_sections_returns:
  assumes "None \<notin> set sections" and "set sections \<subseteq> fst ` set (configuration_listeners self)"
  shows "\<exists>observed. (observe_sections self sections :: 'x exn + _) = Inr observed"
  using assms
proof (induction sections)
  case Nil
  show ?case by simp
next
  case (Cons section' rest)
  then obtain observed
    where rest: "(observe_sections self rest :: 'x exn + _) = Inr observed"
    by auto
  from Cons.prems obtain s where s: "section' = Some s"
    by (cases section') auto
  from Cons.prems have "section' \<in> fst ` set (configuration_listeners self)"
    by simp
  then obtain observed_options
    where "map_of (configuration_listeners self) section' = Some observed_options"
    by (metis map_of_eq_None_iff not_Some_eq)
  with rest show ?case
    by (simp add: s)
qed

lemma init_returns:
  fixes methods :: "(string \<times> 'o conf_listen option) list"
  shows "\<exists>observed. (init PYSIDE6 CONF_SECTION' methods :: 'x exn + _) =
     Inr (merge_none_observers (gather_observers PYSIDE6 methods
            \<lparr>CONF_SECTION = CONF_SECTION', attributes = map fst methods,
             configuration_listeners = [], multi_option_listeners = {}\<rparr>) :: ('o, 'f) observer,
          CONF_SECTION' = None, observed)"
proof -
  let ?self = "merge_none_observers (gather_observers PYSIDE6 methods
      \<lparr>CONF_SECTION = CONF_SECTION', attributes = map fst methods,
       configuration_listeners = [], multi_option_listeners = {}\<rparr>) :: ('o, 'f) observer"
  have "None \<notin> set (map fst (configuration_listeners ?self))"
    using None_not_key_merge_none_observers by auto
  then have "\<exists>observed.
      (observe_sections ?self (map fst (configuration_listeners ?self)) :: 'x exn + _)
      = Inr observed"
    by (intro observe_sections_returns) simp_all
  then show ?thesis
    by (auto simp: init_def Let_def)
qed

lemma well_formed_Nil: "well_formed []"
  by (simp add: well_formed_def)

lemma receivers_for_Nil: "receivers_for [] section option = []"
  by (simp add: receivers_for_def get_default_Nil)

lemma init_observer:
  fixes methods :: "(string \<times> 'o conf_listen option) list" and self :: "('o, 'f) observer"
  assumes "(init PYSIDE6 CONF_SECTION' methods :: 'x exn + _) = Inr (self, warned, observed)"
  shows "CONF_SECTION self = CONF_SECTION'"
    and "attributes self = map fst methods"
    and "well_formed (configuration_listeners self)"
    and "None \<notin> fst ` set (configuration_listeners self)"
    and "multi_option_listeners self =
      {method_name. \<exists>info. (method_name, Some info) \<in> set methods \<and>
         \<not> skipped PYSIDE6 method_name \<and> 1 < length info}"
    and "receivers_for (configuration_listeners self) section option =
      (if section = None then []
       else (if section = CONF_SECTION'
             then registered (registrations PYSIDE6 methods) None option else []) @
            registered (registrations PYSIDE6 methods) section option)"
proof -
  let ?new = "\<lparr>CONF_SECTION = CONF_SECTION', attributes = map fst methods,
      configuration_listeners = [], multi_option_listeners = {}\<rparr> :: ('o, 'f) observer"
  let ?gathered = "gather_observers PYSIDE6 methods ?new"
  from assms have self: "self = merge_none_observers ?gathered"
    by (auto simp: init_def Let_def split: sum.splits)
  have wf: "well_formed (configuration_listeners ?gathered)"
    by (simp add: well_formed_gather_observers well_formed_Nil)
  show "CONF_SECTION self = CONF_SECTION'" and "attributes self = map fst methods"
    by (simp_all add: self)
  show "well_formed (configuration_listeners self)"
    unfolding self using wf by (rule well_formed_merge_none_observers)
  show "None \<notin> fst ` set (configuration_listeners self)"
    unfolding self by (rule None_not_key_merge_none_observers)
  show "multi_option_listeners self =
      {method_name. \<exists>info. (method_name, Some info) \<in> set methods \<and>
         \<not> skipped PYSIDE6 method_name \<and> 1 < length info}"
    by (simp add: self multi_gather_observers)
  have "receivers_for (configuration_listeners ?gathered) section' option =
      registered (registrations PYSIDE6 methods) section' option" for section'
    by (simp add: receivers_gather_observers receivers_for_Nil)
  then show "receivers_for (configuration_listeners self) section option =
      (if section = None then []
       else (if section = CONF_SECTION'
             then registered (registrations PYSIDE6 methods) None option else []) @
            registered (registrations PYSIDE6 methods) section option)"
    by (simp add: self receivers_merge_none_observers [OF wf])
qed

subsection \<open>Observers added later\<close>

lemma add_configuration_observers_fields [simp]:
  "CONF_SECTION (add_configuration_observers observers self) = CONF_SECTION self"
  "attributes (add_configuration_observers observers self) = attributes self"
  "multi_option_listeners (add_configuration_observers observers self) =
     multi_option_listeners self"
  by (induction observers self rule: add_configuration_observers.induct)
    (simp_all add: add_configuration_observer_def Let_def)

lemma well_formed_add_configuration_observer:
  "well_formed (configuration_listeners self) \<Longrightarrow>
   well_formed (configuration_listeners (fst (add_configuration_observer func option section self)))"
  by (simp add: add_configuration_observer_def Let_def well_formed_add_listener)

lemma receivers_add_configuration_observers:
  "receivers_for (configuration_listeners (add_configuration_observers observers self))
       section option =
     receivers_for (configuration_listeners self) section option @
     registered (added (CONF_SECTION self) observers) section option"
proof (induction observers self rule: add_configuration_observers.induct)
  case (1 self)
  show ?case by (simp add: added_def)
next
  case (2 func option' section' rest self)
  then show ?case
    by (auto simp: add_configuration_observer_def Let_def receivers_add_listener added_def
        registered_def)
qed

lemma added_Callable:
  "receiver \<in> set (registered (added CONF_SECTION' observers) section option) \<Longrightarrow>
   \<exists>func. receiver = Callable func"
  by (auto simp: registered_def added_def)

lemma registered_Name:
  assumes "receiver \<in> set (registered (registrations PYSIDE6 methods) section option)"
  shows "\<exists>method_name info. receiver = Name method_name \<and>
     (method_name, Some info) \<in> set methods \<and> \<not> skipped PYSIDE6 method_name"
proof -
  from assms have "(receiver, option, section) \<in> set (registrations PYSIDE6 methods)"
    by (auto simp: registered_def)
  then show ?thesis
    by (blast dest: registrations_Name)
qed

subsection \<open>The notification loop\<close>

lemma method_of_resolved: "method_of self receiver = Inr m \<Longrightarrow> m = resolved receiver"
  by (cases receiver) (auto split: if_splits)




lemma notify_calls:
  assumes "call \<in> set (fst (notify in_names behaviour self option value receivers))"
  shows "\<exists>receiver \<in> set receivers. \<exists>multi.
     is_multi in_names self receiver = Inr multi \<and>
     call = (resolved receiver, arguments multi option value)"
  using assms
proof (induction receivers)
  case Nil
  then show ?case by simp
next
  case (Cons receiver rest)
  then show ?case
    by (auto simp: Let_def split: sum.splits option.splits prod.splits
        dest: method_of_resolved)
qed

subsection \<open>The example class\<close>

lemma example_init:
  "(init False (Some ''sec'') example_methods :: unit exn + _) =
     Inr (example_observer, False,
          [(Some ''sec'', ''opt''), (Some ''sec'', ''x''), (Some ''other'', ''y'')])"
  by (simp add: init_def example_methods_def example_observer_def skipped_def
      add_listener_def merge_none_observers_def get_default_def Let_def)

lemma example_init_no_section:
  "(init False None example_methods :: unit exn + _) =
     Inr (example_observer_no_section, True, [(Some ''sec'', ''opt''), (Some ''other'', ''y'')])"
  by (simp add: init_def example_methods_def example_observer_no_section_def skipped_def
      add_listener_def merge_none_observers_def get_default_def Let_def)

subsection \<open>The registry after construction and later additions\<close>

lemma receivers_reachable:
  fixes methods :: "(string \<times> 'o conf_listen option) list" and self0 :: "('o, 'f) observer"
  assumes "(init PYSIDE6 CONF_SECTION' methods :: 'x exn + _) = Inr (self0, warned, observed)"
  shows "receivers_for
       (configuration_listeners (add_configuration_observers observers self0)) section option =
     call_order PYSIDE6 CONF_SECTION' methods observers section option"
  using init_observer(1,6) [OF assms]
  by (simp add: receivers_add_configuration_observers call_order_def)

lemma call_order_Name:
  fixes observers :: "('f \<times> 'o \<times> string option) list"
  assumes "Name method_name \<in> set (call_order PYSIDE6 CONF_SECTION' methods observers section option)"
  shows "\<exists>info. (method_name, Some info) \<in> set methods \<and> \<not> skipped PYSIDE6 method_name"
proof -
  from assms have
    "(\<exists>section'. (Name method_name :: 'f receiver)
        \<in> set (registered (registrations PYSIDE6 methods) section' option)) \<or>
     (Name method_name :: 'f receiver)
        \<in> set (registered (added CONF_SECTION' observers) section option)"
    by (auto simp: call_order_def split: if_splits)
  then show ?thesis
    by (blast dest: registered_Name added_Callable)
qed

text \<open>
  C3 as amended.  The registry is a dictionary from sections to dictionaries from options
  to receiver lists, with no key twice at either level: \<^verbatim>\<open>__init__\<close> returns and
  establishes this, and \<^verbatim>\<open>_add_listener\<close>, \<^verbatim>\<open>_merge_none_observers\<close> and
  \<^verbatim>\<open>add_configuration_observer\<close> keep it.  After \<^verbatim>\<open>__init__\<close>, and after any
  \<^verbatim>\<open>_merge_none_observers\<close>, \<^verbatim>\<open>None\<close> is not a key.  What \<^verbatim>\<open>__init__\<close> stores under
  a section is the receivers declared with that section; under \<^verbatim>\<open>CONF_SECTION\<close>, when
  it names a section, the receivers declared without a section come in front of them.
  When \<^verbatim>\<open>CONF_SECTION\<close> is \<^verbatim>\<open>None\<close> the receivers declared without a section are
  stored nowhere.
\<close>

theorem registry_shape:
  fixes methods :: "(string \<times> 'o conf_listen option) list"
    and self0 self :: "('o, 'f) observer"
  shows "(\<exists>result. (init PYSIDE6 CONF_SECTION' methods :: 'x exn + ('o, 'f) observer \<times> _)
            = Inr result) \<and>
     ((init PYSIDE6 CONF_SECTION' methods :: 'x exn + _) = Inr (self0, warned, observed) \<longrightarrow>
        well_formed (configuration_listeners self0) \<and>
        None \<notin> fst ` set (configuration_listeners self0) \<and>
        receivers_for (configuration_listeners self0) section' option' =
          (if section' = None then []
           else (if section' = CONF_SECTION'
                 then registered (registrations PYSIDE6 methods) None option' else []) @
                registered (registrations PYSIDE6 methods) section' option')) \<and>
     (well_formed (configuration_listeners self) \<longrightarrow>
        well_formed (configuration_listeners (add_listener receiver option section self)) \<and>
        well_formed (configuration_listeners (merge_none_observers self)) \<and>
        well_formed (configuration_listeners
          (fst (add_configuration_observer func option section self)))) \<and>
     None \<notin> fst ` set (configuration_listeners (merge_none_observers self))"
proof -
  have returns: "\<exists>result.
      (init PYSIDE6 CONF_SECTION' methods :: 'x exn + ('o, 'f) observer \<times> _) = Inr result"
    using init_returns [of PYSIDE6 CONF_SECTION' methods, where ?'x = 'x and ?'f = 'f]
    by blast
  have established: "well_formed (configuration_listeners self0) \<and>
      None \<notin> fst ` set (configuration_listeners self0) \<and>
      receivers_for (configuration_listeners self0) section' option' =
        (if section' = None then []
         else (if section' = CONF_SECTION'
               then registered (registrations PYSIDE6 methods) None option' else []) @
              registered (registrations PYSIDE6 methods) section' option')"
    if "(init PYSIDE6 CONF_SECTION' methods :: 'x exn + _) = Inr (self0, warned, observed)"
    using init_observer(3,4,6) [OF that] by simp
  have kept: "well_formed (configuration_listeners (add_listener receiver option section self)) \<and>
      well_formed (configuration_listeners (merge_none_observers self)) \<and>
      well_formed (configuration_listeners
        (fst (add_configuration_observer func option section self)))"
    if "well_formed (configuration_listeners self)"
    using that
    by (simp add: well_formed_add_listener well_formed_merge_none_observers
        well_formed_add_configuration_observer)
  from returns established kept None_not_key_merge_none_observers [of self]
  show ?thesis by blast
qed

theorem registry_shape_witness:
  "(init False (Some ''sec'') example_methods :: unit exn + _) =
     Inr (example_observer, False,
          [(Some ''sec'', ''opt''), (Some ''sec'', ''x''), (Some ''other'', ''y'')]) \<and>
   well_formed (configuration_listeners example_observer) \<and>
   None \<notin> fst ` set (configuration_listeners example_observer) \<and>
   receivers_for (configuration_listeners example_observer) (Some ''sec'') ''opt'' =
     [Name ''b'', Name ''a''] \<and>
   (init False None example_methods :: unit exn + _) =
     Inr (example_observer_no_section, True, [(Some ''sec'', ''opt''), (Some ''other'', ''y'')]) \<and>
   well_formed (configuration_listeners example_observer_no_section) \<and>
   None \<notin> fst ` set (configuration_listeners example_observer_no_section) \<and>
   receivers_for (configuration_listeners example_observer_no_section) (Some ''sec'') ''opt'' =
     [Name ''a''] \<and>
   well_formed (configuration_listeners (add_listener (Name ''d'') ''opt'' None example_observer)) \<and>
   well_formed (configuration_listeners (merge_none_observers example_observer)) \<and>
   well_formed (configuration_listeners
     (fst (add_configuration_observer 7 ''opt'' None example_observer)))"
proof -
  note i = example_init
  note n = example_init_no_section
  have r: "registered (registrations False example_methods) None ''opt'' =
      ([Name ''b''] :: nat receiver list)"
    "registered (registrations False example_methods) (Some ''sec'') ''opt'' =
      ([Name ''a''] :: nat receiver list)"
    by (simp_all add: registered_def example_methods_def skipped_def)
  have w: "well_formed (configuration_listeners example_observer)"
    by (simp add: well_formed_def example_observer_def)
  show ?thesis
    using i n r w
      registry_shape [of False "Some ''sec''" example_methods example_observer False
        "[(Some ''sec'', ''opt''), (Some ''sec'', ''x''), (Some ''other'', ''y'')]"
        "Some ''sec''" "''opt''" example_observer "Name ''d''" "''opt''" None 7,
        where ?'x = unit]
      registry_shape [of False None example_methods example_observer_no_section True
        "[(Some ''sec'', ''opt''), (Some ''other'', ''y'')]"
        "Some ''sec''" "''opt''" example_observer "Name ''d''" "''opt''" None 7,
        where ?'x = unit]
    by simp
qed

text \<open>
  C3 as stated fails.  In a class that leaves \<^verbatim>\<open>CONF_SECTION\<close> at \<^verbatim>\<open>None\<close>, the method
  \<^verbatim>\<open>b\<close>, declared for option \<^verbatim>\<open>opt\<close> without a section, is not merged under
  \<^verbatim>\<open>CONF_SECTION\<close>: after \<^verbatim>\<open>__init__\<close> it is in no list of the registry.
\<close>

theorem registry_merge_counterexample:
  "(init False None example_methods :: unit exn + _) =
     Inr (example_observer_no_section, True, [(Some ''sec'', ''opt''), (Some ''other'', ''y'')]) \<and>
   registered (registrations False example_methods) None ''opt'' = [Name ''b'' :: nat receiver] \<and>
   CONF_SECTION example_observer_no_section = None \<and>
   receivers_for (configuration_listeners example_observer_no_section)
     (CONF_SECTION example_observer_no_section) ''opt'' = [] \<and>
   configuration_listeners example_observer_no_section =
     [(Some ''sec'', [(''opt'', [Name ''a''])]), (Some ''other'', [(''y'', [Name ''c''])])]"
proof -
  have r: "registered (registrations False example_methods) None ''opt'' =
      [Name ''b'' :: nat receiver]"
    by (simp add: registered_def example_methods_def skipped_def)
  have l: "receivers_for (configuration_listeners example_observer_no_section)
      (CONF_SECTION example_observer_no_section) ''opt'' = []"
    by (simp add: receivers_for_def get_default_def example_observer_no_section_def)
  from example_init_no_section r l show ?thesis
    by (simp add: example_observer_no_section_def)
qed

subsection \<open>Fan-out\<close>

lemma on_configuration_change_reachable:
  fixes methods :: "(string \<times> 'o conf_listen option) list" and self0 :: "('o, 'f) observer"
  assumes "(init PYSIDE6 CONF_SECTION' methods :: 'x exn + _) = Inr (self0, warned, observed)"
  shows "on_configuration_change in_names behaviour
       (add_configuration_observers observers self0) option section value =
     (add_configuration_observers observers self0,
      notify in_names behaviour (add_configuration_observers observers self0) option value
        (call_order PYSIDE6 CONF_SECTION' methods observers section option))"
  using receivers_reachable [OF assms, of observers "section" option]
  by (simp add: on_configuration_change_notify receivers_for_def)

text \<open>
  C7.  A method whose \<^verbatim>\<open>_conf_listen\<close> has more than one entry is called with the
  option and the value; a method whose \<^verbatim>\<open>_conf_listen\<close> has exactly one entry is
  called with the value alone.  This holds for every call \<^verbatim>\<open>on_configuration_change\<close>
  makes on an observer built by \<^verbatim>\<open>__init__\<close>, also after observers were added, the
  attribute names of the object being pairwise different.
\<close>

theorem multi_option_arguments:
  fixes methods :: "(string \<times> 'o conf_listen option) list" and self0 :: "('o, 'f) observer"
    and behaviour :: "'f pymethod \<times> ('o, 'v) arg list \<Rightarrow> 'x option"
    and in_names :: "'f \<Rightarrow> string set \<Rightarrow> 'x exn + bool"
  assumes "(init PYSIDE6 CONF_SECTION' methods :: 'y exn + _) = Inr (self0, warned, observed)"
    and "distinct (map fst methods)"
    and "(method_name, Some info) \<in> set methods"
    and "(BoundMethod method_name, args) \<in> set (fst (snd
      (on_configuration_change in_names behaviour (add_configuration_observers observers self0)
         option section value)))"
  shows "args = (if 1 < length info then [ArgOption option, ArgValue value] else [ArgValue value])"
proof -
  let ?self = "add_configuration_observers observers self0"
  from assms(4)
  have "(BoundMethod method_name, args) \<in> set (fst (notify in_names behaviour ?self option value
      (call_order PYSIDE6 CONF_SECTION' methods observers section option)))"
    by (simp add: on_configuration_change_reachable [OF assms(1)])
  then obtain receiver multi
    where receiver: "receiver \<in> set (call_order PYSIDE6 CONF_SECTION' methods observers section option)"
      and multi: "is_multi in_names ?self receiver = Inr multi"
      and call: "(BoundMethod method_name, args) = (resolved receiver, arguments multi option value)"
    by (blast dest: notify_calls)
  from call have name: "receiver = Name method_name"
    by (cases receiver) simp_all
  with receiver obtain info'
    where info': "(method_name, Some info') \<in> set methods" "\<not> skipped PYSIDE6 method_name"
    by (blast dest: call_order_Name)
  from assms(2,3) info'(1) have "info' = info"
    by (metis eq_key_imp_eq_value option.inject)
  with assms(2) info' have "method_name \<in> multi_option_listeners self0 \<longleftrightarrow> 1 < length info"
    by (auto simp: init_observer(5) [OF assms(1)] dest: eq_key_imp_eq_value)
  moreover from multi name have "multi \<longleftrightarrow> method_name \<in> multi_option_listeners self0"
    by auto
  ultimately show ?thesis
    using call by (simp add: arguments_def)
qed

theorem multi_option_arguments_witness:
  "(init False (Some ''sec'') example_methods :: unit exn + _) =
     Inr (example_observer, False,
          [(Some ''sec'', ''opt''), (Some ''sec'', ''x''), (Some ''other'', ''y'')]) \<and>
   distinct (map fst example_methods) \<and>
   (''c'', Some [(None, ''x''), (Some ''other'', ''y'')]) \<in> set example_methods \<and>
   (''a'', Some [(Some ''sec'', ''opt'')]) \<in> set example_methods \<and>
   (BoundMethod ''c'', [ArgOption ''x'', ArgValue 1]) \<in> set (fst (snd
      (on_configuration_change example_in_names returns
         (add_configuration_observers [] example_observer) ''x'' (Some ''sec'') 1))) \<and>
   (BoundMethod ''a'', [ArgValue 1]) \<in> set (fst (snd
      (on_configuration_change example_in_names returns
         (add_configuration_observers [] example_observer) ''opt'' (Some ''sec'') 1))) \<and>
   [ArgOption ''x'', ArgValue (1::int)] =
     (if 1 < length [(None :: string option, ''x''), (Some ''other'', ''y'')]
      then [ArgOption ''x'', ArgValue 1] else [ArgValue 1]) \<and>
   [ArgValue (1::int)] =
     (if 1 < length [(Some ''sec'', ''opt'')]
      then [ArgOption ''opt'', ArgValue 1] else [ArgValue 1])"
proof -
  note i = example_init
  have d: "distinct (map fst example_methods)"
    by (simp add: example_methods_def)
  have c: "(''c'', Some [(None, ''x''), (Some ''other'', ''y'')]) \<in> set example_methods"
    by (simp add: example_methods_def)
  have a: "(''a'', Some [(Some ''sec'', ''opt'')]) \<in> set example_methods"
    by (simp add: example_methods_def)
  have cc: "(BoundMethod ''c'', [ArgOption ''x'', ArgValue 1]) \<in> set (fst (snd
      (on_configuration_change example_in_names returns
         (add_configuration_observers [] example_observer) ''x'' (Some ''sec'') 1)))"
    by (simp add: on_configuration_change_def example_observer_def get_default_def
        arguments_def returns_def)
  have ca: "(BoundMethod ''a'', [ArgValue 1]) \<in> set (fst (snd
      (on_configuration_change example_in_names returns
         (add_configuration_observers [] example_observer) ''opt'' (Some ''sec'') 1)))"
    by (simp add: on_configuration_change_def example_observer_def get_default_def
        arguments_def returns_def)
  show ?thesis
    using i d c a cc ca multi_option_arguments [OF i d c cc] multi_option_arguments [OF i d a ca]
    by simp
qed




end
